theory Spec2Isabelle
  imports Main "HOL-Library.AList"
begin

section \<open>Values, documents and the remote document store\<close>

text \<open>
  JavaScript values as far as the sources use them: \<open>undefined\<close>, \<open>null\<close>, strings,
  numbers, booleans, a client-side \<open>new Date()\<close> (read from the device clock), the
  sentinel returned by \<open>serverTimestamp()\<close>, the timestamp the backend stores in
  place of that sentinel (read from the backend's clock), and arrays.
\<close>

datatype jsval =
    Undefined
  | Null
  | Str string
  | Num int
  | Bool bool
  | ClientDate nat
  | ServerTimestampSentinel
  | ServerTime nat
  | Arr "jsval list"

text \<open>A JavaScript \<open>Error\<close> carries a message; a Firebase error carries a code.\<close>

datatype error = Error string | FirebaseError string

text \<open>
  An object literal or a document's data is a finite map from field names to values;
  reading a missing property gives \<open>undefined\<close>.
\<close>

type_synonym document = "string \<rightharpoonup> jsval"

definition getProp :: "document \<Rightarrow> string \<Rightarrow> jsval" where
  "getProp obj k = (case obj k of None \<Rightarrow> Undefined | Some v \<Rightarrow> v)"

text \<open>JavaScript truthiness, for \<open>if (storedRole)\<close>.\<close>

fun truthy :: "jsval \<Rightarrow> bool" where
  "truthy Undefined = False"
| "truthy Null = False"
| "truthy (Str s) = (s \<noteq> [])"
| "truthy (Num n) = (n \<noteq> 0)"
| "truthy (Bool b) = b"
| "truthy (ClientDate t) = True"
| "truthy ServerTimestampSentinel = True"
| "truthy (ServerTime t) = True"
| "truthy (Arr xs) = True"

text \<open>
  The remote store: every collection path holds its documents as a list of
  (document id, data) pairs. The backend replaces the \<open>serverTimestamp()\<close> sentinel
  by its own clock when it commits a write.
\<close>

type_synonym store = "string \<Rightarrow> (string \<times> document) list"

definition resolveTimestamps :: "nat \<Rightarrow> document \<Rightarrow> document" where
  "resolveTimestamps t payload =
     (\<lambda>k. map_option (\<lambda>v. if v = ServerTimestampSentinel then ServerTime t else v) (payload k))"

definition lookupDoc :: "store \<Rightarrow> string \<Rightarrow> string \<Rightarrow> document option" where
  "lookupDoc s path docId = map_of (s path) docId"

definition writeDoc :: "store \<Rightarrow> string \<Rightarrow> string \<Rightarrow> document \<Rightarrow> store" where
  "writeDoc s path docId d = s(path := AList.update docId d (s path))"

definition removeDoc :: "store \<Rightarrow> string \<Rightarrow> string \<Rightarrow> store" where
  "removeDoc s path docId = s(path := AList.delete docId (s path))"

subsection \<open>Queries\<close>

text \<open>
  A constraint of a query names a field, one of the operators of the client library and
  an operand. The backend answers a query with the documents of the collection that
  satisfy every constraint of the query.
\<close>

datatype whereOp =
    OpLt | OpLe | OpEq | OpNe | OpGe | OpGt
  | OpArrayContains | OpIn | OpArrayContainsAny | OpNotIn

record constraint =
  onField :: string
  withOp :: whereOp
  operand :: jsval

datatype query = Query string "constraint list"

definition collection :: "string \<Rightarrow> query" where
  "collection path = Query path []"

fun queryPath :: "query \<Rightarrow> string" where
  "queryPath (Query path ks) = path"

fun queryConstraints :: "query \<Rightarrow> constraint list" where
  "queryConstraints (Query path ks) = ks"

fun jsval_less :: "jsval \<Rightarrow> jsval \<Rightarrow> bool" where
  "jsval_less (Num a) (Num b) = (a < b)"
| "jsval_less (Str a) (Str b) = lexordp (<) (map of_char a :: nat list) (map of_char b)"
| "jsval_less (ServerTime a) (ServerTime b) = (a < b)"
| "jsval_less (ClientDate a) (ClientDate b) = (a < b)"
| "jsval_less a b = False"

fun elements :: "jsval \<Rightarrow> jsval list" where
  "elements (Arr xs) = xs"
| "elements v = []"

fun compareOp :: "whereOp \<Rightarrow> jsval \<Rightarrow> jsval \<Rightarrow> bool" where
  "compareOp OpEq a b = (a = b)"
| "compareOp OpNe a b = (a \<noteq> b)"
| "compareOp OpLt a b = jsval_less a b"
| "compareOp OpLe a b = (jsval_less a b \<or> a = b)"
| "compareOp OpGt a b = jsval_less b a"
| "compareOp OpGe a b = (jsval_less b a \<or> a = b)"
| "compareOp OpArrayContains a b = List.member (elements a) b"
| "compareOp OpIn a b = List.member (elements b) a"
| "compareOp OpArrayContainsAny a b = list_ex (List.member (elements b)) (elements a)"
| "compareOp OpNotIn a b = (\<not> List.member (elements b) a)"

definition satisfies :: "constraint \<Rightarrow> document \<Rightarrow> bool" where
  "satisfies k d =
     (case d (onField k) of None \<Rightarrow> False | Some v \<Rightarrow> compareOp (withOp k) v (operand k))"

definition runQuery :: "store \<Rightarrow> query \<Rightarrow> (string \<times> document) list" where
  "runQuery s q =
     filter (\<lambda>entry. list_all (\<lambda>k. satisfies k (snd entry)) (queryConstraints q)) (s (queryPath q))"

subsection \<open>Conditions\<close>

text \<open>
  The filter conditions that callers hand to the module are JavaScript objects of which
  the module reads the properties \<open>field\<close>, \<open>operator\<close> and \<open>value\<close>; a property
  that the object does not have reads \<open>undefined\<close> (an array given in place of the
  object has none of the three). A condition names a constraint when its field is a
  non-empty string, its operator is one of the operator strings of the client library
  and its value is not \<open>undefined\<close>.
\<close>

record condition =
  field :: jsval
  operator :: jsval
  cvalue :: jsval

definition parseOperator :: "string \<Rightarrow> whereOp option" where
  "parseOperator opStr =
     (if opStr = ''<'' then Some OpLt
      else if opStr = ''<='' then Some OpLe
      else if opStr = ''=='' then Some OpEq
      else if opStr = ''!='' then Some OpNe
      else if opStr = ''>='' then Some OpGe
      else if opStr = ''>'' then Some OpGt
      else if opStr = ''array-contains'' then Some OpArrayContains
      else if opStr = ''in'' then Some OpIn
      else if opStr = ''array-contains-any'' then Some OpArrayContainsAny
      else if opStr = ''not-in'' then Some OpNotIn
      else None)"

definition constraintOf :: "condition \<Rightarrow> constraint option" where
  "constraintOf c =
     (case field c of
        Str f \<Rightarrow>
          (case operator c of
             Str opStr \<Rightarrow>
               (case parseOperator opStr of
                  Some opr \<Rightarrow>
                    if f = [] \<or> cvalue c = Undefined then None
                    else Some \<lparr>onField = f, withOp = opr, operand = cvalue c\<rparr>
                | None \<Rightarrow> None)
           | _ \<Rightarrow> None)
      | _ \<Rightarrow> None)"



section \<open>services/firestoreService.js\<close>

text \<open>
  The module keeps its Firestore handle in the variable \<open>db\<close>, which stays undefined
  when the configuration is incomplete or the initialisation throws. The handle is
  identified with the contents it gives access to. Everything else the module touches
  is part of the state too: the console, the number of calls that reached the backend,
  the failure the backend answers with (none when it is reachable), the backend's clock,
  the ids it hands out for new documents, the listeners registered by \<open>onSnapshot\<close>,
  and what the client library accepts: which paths, and which constraints on which
  query.
\<close>

datatype listener = DocumentListener string string | QueryListener query

record service =
  db :: "store option"
  backendFailure :: "error option"
  backendCalls :: nat
  serverClock :: nat
  autoId :: "nat \<Rightarrow> string"
  allocatedIds :: nat
  pathAccepted :: "string \<Rightarrow> bool"
  constraintAccepted :: "query \<Rightarrow> constraint \<Rightarrow> bool"
  listeners :: "listener list"
  console :: "string list"

definition console_error :: "string \<Rightarrow> service \<Rightarrow> service" where
  "console_error msg sv = sv\<lparr>console := console sv @ [msg]\<rparr>"

subsection \<open>The backend's operations\<close>

text \<open>
  Each of these counts one call that reached the backend. A call fails with the
  backend's failure when there is one; \<open>updateDoc\<close> also fails on a document that
  does not exist. \<open>setDocMerge\<close> is \<open>setDoc(ref, data, {merge: true})\<close>: the fields
  of the payload are written over the document's fields and the others are kept. Data
  holding the value \<open>undefined\<close>, which the client library refuses to send, is outside
  this model of the writes.
\<close>

definition reach :: "service \<Rightarrow> service" where
  "reach sv = sv\<lparr>backendCalls := Suc (backendCalls sv)\<rparr>"

definition addDoc :: "store \<Rightarrow> string \<Rightarrow> document \<Rightarrow> service \<Rightarrow> (error + string) \<times> service" where
  "addDoc s path payload sv =
     (let sv1 = reach sv in
      case backendFailure sv1 of
        Some e \<Rightarrow> (Inl e, sv1)
      | None \<Rightarrow>
          let newId = autoId sv1 (allocatedIds sv1);
              stored = resolveTimestamps (serverClock sv1) payload
          in (Inr newId,
              sv1\<lparr>db := Some (writeDoc s path newId stored),
                  allocatedIds := Suc (allocatedIds sv1)\<rparr>))"

definition setDocMerge :: "store \<Rightarrow> string \<Rightarrow> string \<Rightarrow> document \<Rightarrow> service \<Rightarrow> (error + unit) \<times> service" where
  "setDocMerge s path docId payload sv =
     (let sv1 = reach sv in
      case backendFailure sv1 of
        Some e \<Rightarrow> (Inl e, sv1)
      | None \<Rightarrow>
          let stored = resolveTimestamps (serverClock sv1) payload;
              merged = (case lookupDoc s path docId of
                          None \<Rightarrow> stored
                        | Some old \<Rightarrow> old ++ stored)
          in (Inr (), sv1\<lparr>db := Some (writeDoc s path docId merged)\<rparr>))"

definition updateDoc :: "store \<Rightarrow> string \<Rightarrow> string \<Rightarrow> document \<Rightarrow> service \<Rightarrow> (error + unit) \<times> service" where
  "updateDoc s path docId payload sv =
     (let sv1 = reach sv in
      case backendFailure sv1 of
        Some e \<Rightarrow> (Inl e, sv1)
      | None \<Rightarrow>
          (case lookupDoc s path docId of
             None \<Rightarrow> (Inl (FirebaseError ''not-found''), sv1)
           | Some old \<Rightarrow>
               (Inr (),
                sv1\<lparr>db := Some (writeDoc s path docId
                                  (old ++ resolveTimestamps (serverClock sv1) payload))\<rparr>)))"

definition getDoc :: "store \<Rightarrow> string \<Rightarrow> string \<Rightarrow> service \<Rightarrow> (error + document option) \<times> service" where
  "getDoc s path docId sv =
     (let sv1 = reach sv in
      case backendFailure sv1 of
        Some e \<Rightarrow> (Inl e, sv1)
      | None \<Rightarrow> (Inr (lookupDoc s path docId), sv1))"

definition deleteDoc :: "store \<Rightarrow> string \<Rightarrow> string \<Rightarrow> service \<Rightarrow> (error + unit) \<times> service" where
  "deleteDoc s path docId sv =
     (let sv1 = reach sv in
      case backendFailure sv1 of
        Some e \<Rightarrow> (Inl e, sv1)
      | None \<Rightarrow> (Inr (), sv1\<lparr>db := Some (removeDoc s path docId)\<rparr>))"

definition getDocs :: "store \<Rightarrow> query \<Rightarrow> service \<Rightarrow> (error + (string \<times> document) list) \<times> service" where
  "getDocs s q sv =
     (let sv1 = reach sv in
      case backendFailure sv1 of
        Some e \<Rightarrow> (Inl e, sv1)
      | None \<Rightarrow> (Inr (runQuery s q), sv1))"

definition onSnapshot :: "listener \<Rightarrow> service \<Rightarrow> service" where
  "onSnapshot l sv = (reach sv)\<lparr>listeners := listeners sv @ [l]\<rparr>"


subsection \<open>The exported operations\<close>

text \<open>
  \<open>collection(db, path)\<close> and \<open>doc(db, path, id)\<close> throw on a path the client library
  does not accept, before anything is sent.
\<close>

definition collectionRef :: "string \<Rightarrow> service \<Rightarrow> error + query" where
  "collectionRef path sv =
     (if pathAccepted sv path then Inr (collection path) else Inl (FirebaseError ''invalid-argument''))"

definition docRef :: "string \<Rightarrow> string \<Rightarrow> service \<Rightarrow> error + (string \<times> string)" where
  "docRef path docId sv =
     (if pathAccepted sv path then Inr (path, docId) else Inl (FirebaseError ''invalid-argument''))"

text \<open>The \<open>catch\<close> block of every asynchronous operation logs and throws the error again.\<close>

definition rethrow :: "string \<Rightarrow> (error + 'a) \<times> service \<Rightarrow> (error + 'a) \<times> service" where
  "rethrow msg r =
     (case r of
        (Inl e, sv) \<Rightarrow> (Inl e, console_error msg sv)
      | (Inr x, sv) \<Rightarrow> (Inr x, sv))"

definition addDocument :: "string \<Rightarrow> document \<Rightarrow> service \<Rightarrow> (error + string) \<times> service" where
  "addDocument collectionPath data sv =
     rethrow ''Error adding document:''
       (case db sv of
          None \<Rightarrow>
            (Inl (Error ''Firestore is not initialized.''),
             console_error ''addDocument: Firestore DB instance is undefined. Throwing error.'' sv)
        | Some s \<Rightarrow>
            (case collectionRef collectionPath sv of
               Inl e \<Rightarrow> (Inl e, sv)
             | Inr q \<Rightarrow>
                 addDoc s (queryPath q) (data(''createdAt'' \<mapsto> ServerTimestampSentinel)) sv))"

definition setDocument :: "string \<Rightarrow> string \<Rightarrow> document \<Rightarrow> service \<Rightarrow> (error + unit) \<times> service" where
  "setDocument collectionPath docId data sv =
     rethrow ''Error setting document:''
       (case db sv of
          None \<Rightarrow>
            (Inl (Error ''Firestore is not initialized.''),
             console_error ''setDocument: Firestore DB instance is undefined. Throwing error.'' sv)
        | Some s \<Rightarrow>
            (case docRef collectionPath docId sv of
               Inl e \<Rightarrow> (Inl e, sv)
             | Inr r \<Rightarrow>
                 setDocMerge s (fst r) (snd r) (data(''updatedAt'' \<mapsto> ServerTimestampSentinel)) sv))"

definition updateDocument :: "string \<Rightarrow> string \<Rightarrow> document \<Rightarrow> service \<Rightarrow> (error + unit) \<times> service" where
  "updateDocument collectionPath docId data sv =
     rethrow ''Error updating document:''
       (case db sv of
          None \<Rightarrow>
            (Inl (Error ''Firestore is not initialized.''),
             console_error ''updateDocument: Firestore DB instance is undefined. Throwing error.'' sv)
        | Some s \<Rightarrow>
            (case docRef collectionPath docId sv of
               Inl e \<Rightarrow> (Inl e, sv)
             | Inr r \<Rightarrow>
                 updateDoc s (fst r) (snd r) (data(''updatedAt'' \<mapsto> ServerTimestampSentinel)) sv))"

text \<open>\<open>{ id: doc.id, ...doc.data() }\<close>: a field \<open>id\<close> of the data wins over the document's id.\<close>

definition withId :: "string \<Rightarrow> document \<Rightarrow> document" where
  "withId docId data = [''id'' \<mapsto> Str docId] ++ data"

definition getDocument :: "string \<Rightarrow> string \<Rightarrow> service \<Rightarrow> (error + document option) \<times> service" where
  "getDocument collectionPath docId sv =
     rethrow ''Error getting document:''
       (case db sv of
          None \<Rightarrow>
            (Inl (Error ''Firestore is not initialized.''),
             console_error ''getDocument: Firestore DB instance is undefined. Throwing error.'' sv)
        | Some s \<Rightarrow>
            (case docRef collectionPath docId sv of
               Inl e \<Rightarrow> (Inl e, sv)
             | Inr r \<Rightarrow>
                 (case getDoc s (fst r) (snd r) sv of
                    (Inl e, sv1) \<Rightarrow> (Inl e, sv1)
                  | (Inr docSnap, sv1) \<Rightarrow>
                      (case docSnap of
                         Some d \<Rightarrow> (Inr (Some (withId (snd r) d)), sv1)
                       | None \<Rightarrow> (Inr None, sv1)))))"

definition deleteDocument :: "string \<Rightarrow> string \<Rightarrow> service \<Rightarrow> (error + unit) \<times> service" where
  "deleteDocument collectionPath docId sv =
     rethrow ''Error deleting document:''
       (case db sv of
          None \<Rightarrow>
            (Inl (Error ''Firestore is not initialized.''),
             console_error ''deleteDocument: Firestore DB instance is undefined. Throwing error.'' sv)
        | Some s \<Rightarrow>
            (case docRef collectionPath docId sv of
               Inl e \<Rightarrow> (Inl e, sv)
             | Inr r \<Rightarrow> deleteDoc s (fst r) (snd r) sv))"

text \<open>
  The loop \<open>querySnapshot.forEach((doc) => documents.push({ id: doc.id, ...doc.data() }))\<close>,
  starting from the empty array.
\<close>

definition collectDocuments :: "(string \<times> document) list \<Rightarrow> document list" where
  "collectDocuments querySnapshot =
     fold (\<lambda>doc documents. documents @ [withId (fst doc) (snd doc)]) querySnapshot []"

definition getAllDocuments :: "string \<Rightarrow> service \<Rightarrow> (error + document list) \<times> service" where
  "getAllDocuments collectionPath sv =
     rethrow ''Error getting all documents:''
       (case db sv of
          None \<Rightarrow>
            (Inl (Error ''Firestore is not initialized.''),
             console_error ''getAllDocuments: Firestore DB instance is undefined. Throwing error.'' sv)
        | Some s \<Rightarrow>
            (case collectionRef collectionPath sv of
               Inl e \<Rightarrow> (Inl e, sv)
             | Inr q \<Rightarrow>
                 (case getDocs s q sv of
                    (Inl e, sv1) \<Rightarrow> (Inl e, sv1)
                  | (Inr querySnapshot, sv1) \<Rightarrow> (Inr (collectDocuments querySnapshot), sv1))))"

subsection \<open>Live listeners\<close>

text \<open>
  A listener function returns at once, or throws what the client library throws outside
  its \<open>try\<close> block (\<open>Inl\<close>). Its result records the error it handed to
  \<open>onError\<close> before returning (if any) and the listener behind the unsubscribe function
  it returns (none for the no-op \<open>() => {}\<close>). A notification is what the handlers given
  to \<open>onSnapshot\<close> pass on when the backend emits a snapshot or an error.
\<close>

datatype 'a notification = Callback 'a | OnError error

record subscribed =
  reported :: "error option"
  unsubscribe :: "listener option"

definition listenToDocument :: "string \<Rightarrow> string \<Rightarrow> service \<Rightarrow> (error + subscribed) \<times> service" where
  "listenToDocument collectionPath docId sv =
     (case db sv of
        None \<Rightarrow>
          (Inr \<lparr>reported = Some (Error ''Firestore database is not initialized.''), unsubscribe = None\<rparr>,
           console_error ''listenToDocument: Firestore DB instance is undefined. Cannot proceed with query.'' sv)
      | Some s \<Rightarrow>
          (case docRef collectionPath docId sv of
             Inl e \<Rightarrow> (Inl e, sv)
           | Inr r \<Rightarrow>
               (Inr \<lparr>reported = None, unsubscribe = Some (DocumentListener (fst r) (snd r))\<rparr>,
                onSnapshot (DocumentListener (fst r) (snd r)) sv)))"


text \<open>
  \<open>query(q, where(condition.field, condition.operator, condition.value))\<close>: the client
  library throws, before anything is sent, when the condition names no constraint or
  when it does not accept the constraint on the query built so far (a reserved character
  in the field, an operand of the wrong shape, operators that may not be combined).
\<close>

definition queryWhere :: "service \<Rightarrow> query \<Rightarrow> condition \<Rightarrow> error + query" where
  "queryWhere sv q condition =
     (case constraintOf condition of
        None \<Rightarrow> Inl (FirebaseError ''invalid-argument'')
      | Some k \<Rightarrow>
          if constraintAccepted sv q k
          then Inr (Query (queryPath q) (queryConstraints q @ [k]))
          else Inl (FirebaseError ''invalid-argument''))"

text \<open>
  \<open>conditions.forEach(condition => { q = query(q, where(...)) })\<close>: the loop stops at
  the first condition on which the client library throws.
\<close>

fun applyConditions :: "service \<Rightarrow> condition list \<Rightarrow> query \<Rightarrow> error + query" where
  "applyConditions sv [] q = Inr q"
| "applyConditions sv (condition # conditions) q =
     (case queryWhere sv q condition of
        Inl e \<Rightarrow> Inl e
      | Inr q' \<Rightarrow> applyConditions sv conditions q')"

text \<open>
  The loop over the conditions stands outside the \<open>try\<close> block of
  \<open>listenToCollection\<close>: what it throws leaves the function as it is (\<open>Inl\<close>),
  \<open>onError\<close> is not called and nothing is registered.
\<close>

definition listenToCollection ::
  "string \<Rightarrow> condition list \<Rightarrow> service \<Rightarrow> (error + subscribed) \<times> service" where
  "listenToCollection collectionPath conditions sv =
     (case db sv of
        None \<Rightarrow>
          (Inr \<lparr>reported = Some (Error ''Firestore database is not initialized.''), unsubscribe = None\<rparr>,
           console_error ''listenToCollection: Firestore DB instance is undefined. Cannot proceed with query.'' sv)
      | Some s \<Rightarrow>
          (case collectionRef collectionPath sv of
             Inl e \<Rightarrow>
               (Inr \<lparr>reported = Some (Error ''Failed to create collection reference. Database may be uninitialized or path is invalid.''),
                     unsubscribe = None\<rparr>,
                console_error ''listenToCollection: Error creating collection reference. Database may be uninitialized or path is invalid:'' sv)
           | Inr q0 \<Rightarrow>
               (case applyConditions sv conditions q0 of
                  Inl e \<Rightarrow> (Inl e, sv)
                | Inr q \<Rightarrow>
                    (Inr \<lparr>reported = None, unsubscribe = Some (QueryListener q)\<rparr>,
                     onSnapshot (QueryListener q) sv))))"

definition querySnapshot :: "(string \<times> document) list \<Rightarrow> document list notification" where
  "querySnapshot snap = Callback (collectDocuments snap)"






section \<open>context/AuthContext.js\<close>

text \<open>
  The provider's React state (\<open>isAuthenticated\<close>, \<open>user\<close>, \<open>userRole\<close>,
  \<open>isLoadingAuth\<close>, \<open>userId\<close>) together with what its collaborators hold: the identity
  signed in at Firebase Auth, the remote store, the SecureStore items, the console and the
  device clock. \<open>rendered\<close> lists every context value the provider has published: one
  after each state setter, the finest grain at which a consumer can observe the state.
\<close>

record identity =
  uid :: string
  email :: string

record contextValue =
  cvIsAuthenticated :: bool
  cvUser :: "identity option"
  cvUserRole :: jsval
  cvIsLoadingAuth :: bool
  cvUserId :: "string option"

record authState =
  isAuthenticated :: bool
  user :: "identity option"
  userRole :: jsval
  isLoadingAuth :: bool
  userId :: "string option"
  rendered :: "contextValue list"
  authCurrentUser :: "identity option"
  signOutCalls :: nat
  firestoreDb :: store
  firestoreCalls :: nat
  secureStore :: "string \<rightharpoonup> string"
  consoleLog :: "string list"
  deviceClock :: nat

text \<open>
  What the collaborators answer during one operation: the project id of the
  configuration, the outcome of a sign-in and of a sign-up for given credentials, and the
  failures (if any) of the initialisation, of a sign-out and of a call to the store.
\<close>

record collaborators =
  projectId :: string
  signIn :: "string \<Rightarrow> string \<Rightarrow> error + identity"
  signUp :: "string \<Rightarrow> string \<Rightarrow> error + identity"
  initFailure :: "error option"
  signOutFailure :: "error option"
  firestoreFailure :: "error option"

definition contextOf :: "authState \<Rightarrow> contextValue" where
  "contextOf w =
     \<lparr>cvIsAuthenticated = isAuthenticated w, cvUser = user w, cvUserRole = userRole w,
      cvIsLoadingAuth = isLoadingAuth w, cvUserId = userId w\<rparr>"

definition publish :: "authState \<Rightarrow> authState" where
  "publish w = w\<lparr>rendered := rendered w @ [contextOf w]\<rparr>"

definition setIsAuthenticated :: "bool \<Rightarrow> authState \<Rightarrow> authState" where
  "setIsAuthenticated b w = publish (w\<lparr>isAuthenticated := b\<rparr>)"

definition setUser :: "identity option \<Rightarrow> authState \<Rightarrow> authState" where
  "setUser u w = publish (w\<lparr>user := u\<rparr>)"

definition setUserRole :: "jsval \<Rightarrow> authState \<Rightarrow> authState" where
  "setUserRole r w = publish (w\<lparr>userRole := r\<rparr>)"

definition setIsLoadingAuth :: "bool \<Rightarrow> authState \<Rightarrow> authState" where
  "setIsLoadingAuth b w = publish (w\<lparr>isLoadingAuth := b\<rparr>)"

definition setUserId :: "string option \<Rightarrow> authState \<Rightarrow> authState" where
  "setUserId i w = publish (w\<lparr>userId := i\<rparr>)"

definition console_log :: "string \<Rightarrow> authState \<Rightarrow> authState" where
  "console_log msg w = w\<lparr>consoleLog := consoleLog w @ [msg]\<rparr>"

text \<open>The state of \<open>useState\<close> when the provider mounts.\<close>

definition mounted :: "authState \<Rightarrow> authState" where
  "mounted w =
     w\<lparr>isAuthenticated := False, user := None, userRole := Null, isLoadingAuth := True,
       userId := None,
       rendered := [\<lparr>cvIsAuthenticated = False, cvUser = None, cvUserRole = Null,
                     cvIsLoadingAuth = True, cvUserId = None\<rparr>]\<rparr>"

subsection \<open>The collaborators\<close>

text \<open>
  Firebase Auth: a successful sign-in or sign-up makes the identity the current one, a
  successful sign-out leaves none.
\<close>

definition signInWithEmailAndPassword ::
  "collaborators \<Rightarrow> string \<Rightarrow> string \<Rightarrow> authState \<Rightarrow> (error + identity) \<times> authState" where
  "signInWithEmailAndPassword env mail password w =
     (case signIn env mail password of
        Inl e \<Rightarrow> (Inl e, w)
      | Inr u \<Rightarrow> (Inr u, w\<lparr>authCurrentUser := Some u\<rparr>))"

definition createUserWithEmailAndPassword ::
  "collaborators \<Rightarrow> string \<Rightarrow> string \<Rightarrow> authState \<Rightarrow> (error + identity) \<times> authState" where
  "createUserWithEmailAndPassword env mail password w =
     (case signUp env mail password of
        Inl e \<Rightarrow> (Inl e, w)
      | Inr u \<Rightarrow> (Inr u, w\<lparr>authCurrentUser := Some u\<rparr>))"

definition signOut :: "collaborators \<Rightarrow> authState \<Rightarrow> (error + unit) \<times> authState" where
  "signOut env w =
     (let w1 = w\<lparr>signOutCalls := Suc (signOutCalls w)\<rparr> in
      case signOutFailure env of
        Some e \<Rightarrow> (Inl e, w1)
      | None \<Rightarrow> (Inr (), w1\<lparr>authCurrentUser := None\<rparr>))"

text \<open>
  The store, as this module reaches it: \<open>getDoc\<close>, and \<open>setDoc\<close> without the merge
  option, which replaces the document.
\<close>

definition profilesPath :: "collaborators \<Rightarrow> string \<Rightarrow> string" where
  "profilesPath env i = ''artifacts/'' @ projectId env @ ''/users/'' @ i @ ''/profiles''"

definition getDoc_profile ::
  "collaborators \<Rightarrow> string \<Rightarrow> string \<Rightarrow> authState \<Rightarrow> (error + document option) \<times> authState" where
  "getDoc_profile env path docId w =
     (let w1 = w\<lparr>firestoreCalls := Suc (firestoreCalls w)\<rparr> in
      case firestoreFailure env of
        Some e \<Rightarrow> (Inl e, w1)
      | None \<Rightarrow> (Inr (lookupDoc (firestoreDb w1) path docId), w1))"

definition setDoc_profile ::
  "collaborators \<Rightarrow> string \<Rightarrow> string \<Rightarrow> document \<Rightarrow> authState \<Rightarrow> (error + unit) \<times> authState" where
  "setDoc_profile env path docId data w =
     (let w1 = w\<lparr>firestoreCalls := Suc (firestoreCalls w)\<rparr> in
      case firestoreFailure env of
        Some e \<Rightarrow> (Inl e, w1)
      | None \<Rightarrow> (Inr (), w1\<lparr>firestoreDb := writeDoc (firestoreDb w1) path docId data\<rparr>))"

text \<open>
  SecureStore keeps strings under string keys. \<open>getItemAsync\<close> answers \<open>null\<close> for a
  missing key; \<open>setItemAsync\<close> rejects a value that is not a string.
\<close>

definition getItemAsync :: "string \<Rightarrow> authState \<Rightarrow> jsval" where
  "getItemAsync k w = (case secureStore w k of None \<Rightarrow> Null | Some s \<Rightarrow> Str s)"

definition setItemAsync :: "string \<Rightarrow> jsval \<Rightarrow> authState \<Rightarrow> (error + unit) \<times> authState" where
  "setItemAsync k v w =
     (case v of
        Str s \<Rightarrow> (Inr (), w\<lparr>secureStore := (secureStore w)(k \<mapsto> s)\<rparr>)
      | _ \<Rightarrow> (Inl (Error ''Invalid value provided to SecureStore. Values must be strings.''), w))"

definition deleteItemAsync :: "string \<Rightarrow> authState \<Rightarrow> authState" where
  "deleteItemAsync k w = w\<lparr>secureStore := (secureStore w)(k := None)\<rparr>"


subsection \<open>The listener given to \<open>onAuthStateChanged\<close>\<close>

text \<open>
  The listener is an asynchronous function; nothing awaits or catches the promise it
  returns. Its result is \<open>Inl e\<close> when that promise rejects with \<open>e\<close>: the statements
  after the failing \<open>await\<close> are not executed, and no handler runs.

  \<open>resolved\<close> is the last statement, \<open>setIsLoadingAuth(false)\<close>, reached when nothing
  was thrown before. \<open>profileContinuation\<close> is the code that runs when the \<open>await\<close> of
  \<open>getDoc\<close> resumes with a snapshot.
\<close>

definition resolved :: "(error + unit) \<times> authState \<Rightarrow> (error + unit) \<times> authState" where
  "resolved r =
     (case r of
        (Inl e, w) \<Rightarrow> (Inl e, w)
      | (Inr u, w) \<Rightarrow> (Inr (), setIsLoadingAuth False w))"

definition profileContinuation ::
  "collaborators \<Rightarrow> document option \<Rightarrow> authState \<Rightarrow> (error + unit) \<times> authState" where
  "profileContinuation env userDocSnap w =
     resolved
       (case userDocSnap of
          Some userData \<Rightarrow>
            (let role = getProp userData ''role'';
                 w1 = setUserRole role w;
                 w2 = setIsAuthenticated True w1
             in setItemAsync ''userRole'' role w2)
        | None \<Rightarrow>
            (let w1 = console_log ''User profile not found in Firestore for authenticated user. Logging out.'' w;
                 w2 = setIsAuthenticated False w1;
                 w3 = setUser None w2;
                 w4 = setUserRole Null w3;
                 w5 = setUserId None w4;
                 w6 = deleteItemAsync ''userRole'' w5
             in signOut env w6))"

definition authStateChanged ::
  "collaborators \<Rightarrow> identity option \<Rightarrow> authState \<Rightarrow> (error + unit) \<times> authState" where
  "authStateChanged env notified w =
     (case notified of
        Some currentUser \<Rightarrow>
          (let w1 = setUser (Some currentUser) w;
               currentUserId = uid currentUser;
               w2 = setUserId (Some currentUserId) w1;
               storedRole = getItemAsync ''userRole'' w2
           in if truthy storedRole
              then (let w3 = setUserRole storedRole w2;
                        w4 = setIsAuthenticated True w3
                    in resolved (Inr (), w4))
              else (case getDoc_profile env (profilesPath env currentUserId) currentUserId w2 of
                      (Inl e, w3) \<Rightarrow> (Inl e, w3)
                    | (Inr userDocSnap, w3) \<Rightarrow> profileContinuation env userDocSnap w3))
      | None \<Rightarrow>
          (let w1 = setUser None w;
               w2 = setIsAuthenticated False w1;
               w3 = setUserRole Null w2;
               w4 = setUserId None w3;
               w5 = deleteItemAsync ''userRole'' w4
           in resolved (Inr (), w5)))"

text \<open>
  \<open>initializeFirebase\<close>: its \<open>try\<close> block creates the Firebase instances, signs in
  with the custom token when the runtime provides one, and registers the listener; its
  \<open>catch\<close> block handles what that block throws. The result tells
  whether the listener was registered. \<open>bootstrap\<close> is the initialisation followed by
  the first notification, which carries the identity Firebase Auth has persisted (or none).
\<close>

definition initializeFirebase :: "collaborators \<Rightarrow> authState \<Rightarrow> bool \<times> authState" where
  "initializeFirebase env w =
     (case initFailure env of
        None \<Rightarrow> (True, w)
      | Some e \<Rightarrow>
          (let w1 = console_log ''Error initializing Firebase or during initial auth check:'' w;
               w2 = setIsLoadingAuth False w1;
               w3 = setIsAuthenticated False w2;
               w4 = setUser None w3;
               w5 = setUserRole Null w4;
               w6 = setUserId None w5
           in (False, deleteItemAsync ''userRole'' w6)))"

definition bootstrap :: "collaborators \<Rightarrow> authState \<Rightarrow> (error + unit) \<times> authState" where
  "bootstrap env w =
     (case initializeFirebase env (mounted w) of
        (True, w1) \<Rightarrow> authStateChanged env (authCurrentUser w1) w1
      | (False, w1) \<Rightarrow> (Inr (), w1))"

subsection \<open>login, register, logout\<close>

text \<open>
  Each command is \<open>try { ... } catch (error) { ...; throw error } finally { ... }\<close>:
  the \<open>try\<close> block is a function of its own, the \<open>catch\<close> block runs on its error and
  throws it again, and the \<open>finally\<close> block runs last in both cases. The parameter
  \<open>email\<close> of the source is \<open>mail\<close> here, \<open>email\<close> being a field of the identity.
\<close>

definition login_try ::
  "collaborators \<Rightarrow> string \<Rightarrow> string \<Rightarrow> authState \<Rightarrow> (error + unit) \<times> authState" where
  "login_try env mail password w =
     (case signInWithEmailAndPassword env mail password w of
        (Inl e, w1) \<Rightarrow> (Inl e, w1)
      | (Inr currentUser, w1) \<Rightarrow>
          (let w2 = setUser (Some currentUser) w1;
               currentUserId = uid currentUser;
               w3 = setUserId (Some currentUserId) w2
           in case getDoc_profile env (profilesPath env currentUserId) currentUserId w3 of
                (Inl e, w4) \<Rightarrow> (Inl e, w4)
              | (Inr userDocSnap, w4) \<Rightarrow>
                  (case userDocSnap of
                     Some userData \<Rightarrow>
                       (let role = getProp userData ''role'';
                            w5 = setUserRole role w4;
                            w6 = setIsAuthenticated True w5
                        in setItemAsync ''userRole'' role w6)
                   | None \<Rightarrow>
                       (let w5 = console_log ''User profile not found after login. Role not set. Forcing logout.'' w4;
                            w6 = setIsAuthenticated False w5
                        in case signOut env w6 of
                             (Inl e, w7) \<Rightarrow> (Inl e, w7)
                           | (Inr u, w7) \<Rightarrow>
                               (Inl (Error ''User profile not found. Please contact support or register again.''),
                                w7)))))"

definition login ::
  "collaborators \<Rightarrow> string \<Rightarrow> string \<Rightarrow> authState \<Rightarrow> (error + unit) \<times> authState" where
  "login env mail password w =
     (let w1 = setIsLoadingAuth True w in
      case login_try env mail password w1 of
        (Inl e, w2) \<Rightarrow>
          (let w3 = console_log ''Login failed:'' w2;
               w4 = setIsAuthenticated False w3;
               w5 = setUser None w4;
               w6 = setUserRole Null w5
           in (Inl e, setIsLoadingAuth False w6))
      | (Inr u, w2) \<Rightarrow> (Inr (), setIsLoadingAuth False w2))"

definition register_try ::
  "collaborators \<Rightarrow> string \<Rightarrow> string \<Rightarrow> string \<Rightarrow> string \<Rightarrow> string \<Rightarrow> string
     \<Rightarrow> document option \<Rightarrow> authState \<Rightarrow> (error + unit) \<times> authState" where
  "register_try env mail password role firstName lastName phoneNumber agentDetails w =
     (case createUserWithEmailAndPassword env mail password w of
        (Inl e, w1) \<Rightarrow> (Inl e, w1)
      | (Inr currentUser, w1) \<Rightarrow>
          (let w2 = setUser (Some currentUser) w1;
               currentUserId = uid currentUser;
               w3 = setUserId (Some currentUserId) w2;
               profileData =
                 [''email'' \<mapsto> Str mail,
                  ''role'' \<mapsto> Str role,
                  ''firstName'' \<mapsto> Str firstName,
                  ''lastName'' \<mapsto> Str lastName,
                  ''phoneNumber'' \<mapsto> Str phoneNumber,
                  ''createdAt'' \<mapsto> ClientDate (deviceClock w3),
                  ''userId'' \<mapsto> Str currentUserId]
                 ++ (case agentDetails of
                       Some details \<Rightarrow> if role = ''agent'' then details else Map.empty
                     | None \<Rightarrow> Map.empty)
           in case setDoc_profile env (profilesPath env currentUserId) currentUserId profileData w3 of
                (Inl e, w4) \<Rightarrow> (Inl e, w4)
              | (Inr u, w4) \<Rightarrow>
                  (let w5 = setUserRole (Str role) w4;
                       w6 = setIsAuthenticated True w5
                   in setItemAsync ''userRole'' (Str role) w6)))"

definition register ::
  "collaborators \<Rightarrow> string \<Rightarrow> string \<Rightarrow> string \<Rightarrow> string \<Rightarrow> string \<Rightarrow> string
     \<Rightarrow> document option \<Rightarrow> authState \<Rightarrow> (error + unit) \<times> authState" where
  "register env mail password role firstName lastName phoneNumber agentDetails w =
     (let w1 = setIsLoadingAuth True w in
      case register_try env mail password role firstName lastName phoneNumber agentDetails w1 of
        (Inl e, w2) \<Rightarrow>
          (let w3 = console_log ''Registration failed:'' w2;
               w4 = setIsAuthenticated False w3;
               w5 = setUser None w4;
               w6 = setUserRole Null w5
           in (Inl e, setIsLoadingAuth False w6))
      | (Inr u, w2) \<Rightarrow> (Inr (), setIsLoadingAuth False w2))"

definition logout :: "collaborators \<Rightarrow> authState \<Rightarrow> (error + unit) \<times> authState" where
  "logout env w =
     (let w1 = setIsLoadingAuth True w in
      case signOut env w1 of
        (Inl e, w2) \<Rightarrow> (Inl e, setIsLoadingAuth False (console_log ''Logout failed:'' w2))
      | (Inr u, w2) \<Rightarrow> (Inr (), setIsLoadingAuth False w2))"


section \<open>Properties and sample data\<close>

text \<open>
  \<open>nothingSent before after\<close>: between the two states no call reached the backend, no
  listener was registered and the handle is the same.
\<close>

definition nothingSent :: "service \<Rightarrow> service \<Rightarrow> bool" where
  "nothingSent before after =
     (backendCalls after = backendCalls before \<and> listeners after = listeners before
      \<and> db after = db before)"

text \<open>A service over a given handle, and a store with three listings of two agents.\<close>

definition sampleService :: "store option \<Rightarrow> service" where
  "sampleService handle =
     \<lparr>db = handle, backendFailure = None, backendCalls = 0, serverClock = 1700,
      autoId = (\<lambda>n. replicate (Suc n) CHR ''x''), allocatedIds = 0,
      pathAccepted = (\<lambda>path. path \<noteq> []),
      constraintAccepted = (\<lambda>q k. True), listeners = [], console = []\<rparr>"

definition listingL1 :: document where
  "listingL1 = [''title'' \<mapsto> Str ''Flat'', ''agentId'' \<mapsto> Str ''A1'']"

definition listingL2 :: document where
  "listingL2 = [''title'' \<mapsto> Str ''Duplex'', ''agentId'' \<mapsto> Str ''A2'']"

definition listingL3 :: document where
  "listingL3 = [''title'' \<mapsto> Str ''Studio'', ''agentId'' \<mapsto> Str ''A1'']"

definition sampleStore :: store where
  "sampleStore =
     (\<lambda>path. if path = ''listings''
             then [(''L1'', listingL1), (''L2'', listingL2), (''L3'', listingL3)]
             else [])"

subsection \<open>The session invariant and the states the provider can reach\<close>

text \<open>
  A role is known when it is neither \<open>null\<close> nor \<open>undefined\<close>. A published context
  value is sound when it is not authenticated or its role is known.
\<close>

definition nonNull :: "jsval \<Rightarrow> bool" where
  "nonNull v = (v \<noteq> Null \<and> v \<noteq> Undefined)"

definition roleKnown :: "contextValue \<Rightarrow> bool" where
  "roleKnown cv = (cvIsAuthenticated cv \<longrightarrow> nonNull (cvUserRole cv))"

text \<open>
  JavaScript runs the code between two \<open>await\<close>s without interruption, and the listener
  and the commands can be suspended at each \<open>await\<close> while another of them runs. The
  states the provider can reach, in any interleaving, are those produced from the mounted
  state by the blocks of state setters that stand between two \<open>await\<close>s in the source,
  and by the collaborators changing what they hold. \<open>D\<close> is the set of profile documents
  that the store may answer with.
  \<^item> \<open>identity\<close>: \<open>setUser(currentUser); setUserId(currentUserId)\<close> (listener, login, register);
  \<^item> \<open>adopt_cached\<close>: \<open>setUserRole(storedRole); setIsAuthenticated(true)\<close> of the listener,
    under its test \<open>if (storedRole)\<close>;
  \<^item> \<open>adopt_profile\<close>: \<open>setUserRole(userData.role); setIsAuthenticated(true)\<close> of the
    listener and of login, for a profile document of \<open>D\<close>;
  \<^item> \<open>adopt_registered\<close>: \<open>setUserRole(role); setIsAuthenticated(true)\<close> of register, whose
    role is the string it was called with;
  \<^item> \<open>profile_missing\<close>: the four setters of the listener when the profile is missing;
  \<^item> \<open>signed_out\<close>: the four setters of the listener when no identity is notified;
  \<^item> \<open>no_profile\<close>: \<open>setIsAuthenticated(false)\<close> of login before it signs out;
  \<^item> \<open>rollback\<close>: the three setters of the \<open>catch\<close> blocks of login and register;
  \<^item> \<open>init_failed\<close>: the five setters of the \<open>catch\<close> block of the initialisation;
  \<^item> \<open>loading\<close>: \<open>setIsLoadingAuth\<close>, first and last statement of the commands and
    last statement of the listener.
\<close>

inductive reachable :: "(document \<Rightarrow> bool) \<Rightarrow> authState \<Rightarrow> bool"
  for D :: "document \<Rightarrow> bool" where
  mount: "reachable D (mounted w)"
| collaborators:
    "reachable D w \<Longrightarrow> contextOf w' = contextOf w \<Longrightarrow> rendered w' = rendered w
     \<Longrightarrow> reachable D w'"
| loading: "reachable D w \<Longrightarrow> reachable D (setIsLoadingAuth b w)"
| identity: "reachable D w \<Longrightarrow> reachable D (setUserId (Some (uid u)) (setUser (Some u) w))"
| adopt_cached:
    "reachable D w \<Longrightarrow> truthy storedRole
     \<Longrightarrow> reachable D (setIsAuthenticated True (setUserRole storedRole w))"
| adopt_profile:
    "reachable D w \<Longrightarrow> D userData
     \<Longrightarrow> reachable D (setIsAuthenticated True (setUserRole (getProp userData ''role'') w))"
| adopt_registered:
    "reachable D w \<Longrightarrow> reachable D (setIsAuthenticated True (setUserRole (Str role) w))"
| profile_missing:
    "reachable D w \<Longrightarrow>
     reachable D (setUserId None (setUserRole Null (setUser None (setIsAuthenticated False w))))"
| signed_out:
    "reachable D w \<Longrightarrow>
     reachable D (setUserId None (setUserRole Null (setIsAuthenticated False (setUser None w))))"
| no_profile: "reachable D w \<Longrightarrow> reachable D (setIsAuthenticated False w)"
| rollback:
    "reachable D w \<Longrightarrow> reachable D (setUserRole Null (setUser None (setIsAuthenticated False w)))"
| init_failed:
    "reachable D w \<Longrightarrow>
     reachable D (setUserId None (setUserRole Null (setUser None (setIsAuthenticated False
                    (setIsLoadingAuth False w)))))"

text \<open>
  \<open>profileIn D env i w\<close>: the profile that a role resolution or a login for the
  identity \<open>i\<close> would read in the state \<open>w\<close>, if there is one, is a document of \<open>D\<close>.
  \<open>hasRole\<close> is the set of the documents whose field \<open>role\<close> is known.
\<close>

definition profileIn :: "(document \<Rightarrow> bool) \<Rightarrow> collaborators \<Rightarrow> string \<Rightarrow> authState \<Rightarrow> bool" where
  "profileIn D env i w =
     (case lookupDoc (firestoreDb w) (profilesPath env i) i of
        None \<Rightarrow> True
      | Some userData \<Rightarrow> D userData)"

definition hasRole :: "document \<Rightarrow> bool" where
  "hasRole userData = nonNull (getProp userData ''role'')"

subsection \<open>The listener suspended at \<open>getDoc\<close>\<close>

text \<open>
  \<open>resolutionStart\<close> is the listener from its first statement to the \<open>await\<close> of
  \<open>getDoc\<close>, for a notified identity when SecureStore holds no truthy role: the promise
  of \<open>getDoc\<close> is pending and the listener is suspended. \<open>resumedAfterSignOut\<close> is the
  run in which, while that promise is pending, a notification without identity arrives
  and is handled, and the first listener then resumes with its snapshot.
\<close>

definition resolutionStart ::
  "collaborators \<Rightarrow> identity \<Rightarrow> authState \<Rightarrow> (error + document option) \<times> authState" where
  "resolutionStart env currentUser w =
     (let w1 = setUser (Some currentUser) w;
          currentUserId = uid currentUser;
          w2 = setUserId (Some currentUserId) w1
      in getDoc_profile env (profilesPath env currentUserId) currentUserId w2)"

definition resumedAfterSignOut ::
  "collaborators \<Rightarrow> identity \<Rightarrow> authState \<Rightarrow> (error + unit) \<times> authState" where
  "resumedAfterSignOut env currentUser w =
     (case resolutionStart env currentUser w of
        (Inl e, w1) \<Rightarrow> (Inl e, w1)
      | (Inr userDocSnap, w1) \<Rightarrow>
          profileContinuation env userDocSnap (snd (authStateChanged env None w1)))"

subsection \<open>Stored fields and sample states\<close>

definition storedField :: "store \<Rightarrow> string \<Rightarrow> string \<Rightarrow> string \<Rightarrow> jsval" where
  "storedField s path docId k =
     (case lookupDoc s path docId of None \<Rightarrow> Undefined | Some d \<Rightarrow> getProp d k)"

text \<open>A timestamp is server-assigned when it was read from the backend's clock.\<close>

fun serverAssigned :: "jsval \<Rightarrow> bool" where
  "serverAssigned (ServerTime t) = True"
| "serverAssigned v = False"

definition ada :: identity where
  "ada = \<lparr>uid = ''u1'', email = ''ada@example.com''\<rparr>"

definition bob :: identity where
  "bob = \<lparr>uid = ''u2'', email = ''bob@example.com''\<rparr>"

text \<open>
  Collaborators that know Ada's account and accept a sign-up of Bob; \<open>failure\<close> is what
  the store answers with (nothing when it is reachable).
\<close>

definition sampleEnv :: "error option \<Rightarrow> collaborators" where
  "sampleEnv failure =
     \<lparr>projectId = ''rentopia'',
      signIn = (\<lambda>mail password.
                  if mail = ''ada@example.com'' \<and> password = ''secret1''
                  then Inr ada else Inl (FirebaseError ''auth/invalid-credential'')),
      signUp = (\<lambda>mail password.
                  if mail = ''bob@example.com''
                  then Inr bob else Inl (FirebaseError ''auth/email-already-in-use'')),
      initFailure = None,
      signOutFailure = None,
      firestoreFailure = failure\<rparr>"

text \<open>
  A device on which \<open>persisted\<close> is the identity Firebase Auth has kept, \<open>cached\<close> the
  SecureStore item \<open>userRole\<close>, and \<open>profile\<close> the profile document of Ada in the store.
\<close>

definition sampleState :: "identity option \<Rightarrow> string option \<Rightarrow> document option \<Rightarrow> authState" where
  "sampleState persisted cached profile =
     \<lparr>isAuthenticated = False, user = None, userRole = Null, isLoadingAuth = True,
      userId = None, rendered = [], authCurrentUser = persisted, signOutCalls = 0,
      firestoreDb = (\<lambda>path. if path = ''artifacts/rentopia/users/u1/profiles''
                            then (case profile of None \<Rightarrow> [] | Some d \<Rightarrow> [(''u1'', d)])
                            else []),
      firestoreCalls = 0,
      secureStore = (\<lambda>k. if k = ''userRole'' then cached else None),
      consoleLog = [], deviceClock = 42\<rparr>"

definition agentProfile :: document where
  "agentProfile = [''role'' \<mapsto> Str ''agent'', ''firstName'' \<mapsto> Str ''Ada'']"

definition rolelessProfile :: document where
  "rolelessProfile = [''firstName'' \<mapsto> Str ''Ada'']"

section \<open>Verified properties of services/firestoreService.js\<close>

subsection \<open>Auxiliary facts\<close>







lemma rethrow_fst: "fst (rethrow msg r) = fst r"
  by (cases r) (simp add: rethrow_def split: sum.splits)

lemma rethrow_calls: "backendCalls (snd (rethrow msg r)) = backendCalls (snd r)"
  by (cases r) (simp add: rethrow_def console_error_def split: sum.splits)

lemma rethrow_listeners: "listeners (snd (rethrow msg r)) = listeners (snd r)"
  by (cases r) (simp add: rethrow_def console_error_def split: sum.splits)

lemma rethrow_db: "db (snd (rethrow msg r)) = db (snd r)"
  by (cases r) (simp add: rethrow_def console_error_def split: sum.splits)

lemmas rethrow_simps = rethrow_fst rethrow_calls rethrow_listeners rethrow_db

lemma nothingSent_rethrow: "nothingSent sv (snd (rethrow msg r)) = nothingSent sv (snd r)"
  by (simp add: nothingSent_def rethrow_simps)

lemma nothingSent_console: "nothingSent sv (console_error msg sv)"
  by (simp add: nothingSent_def console_error_def)

lemma lookupDoc_writeDoc:
  "lookupDoc (writeDoc s path docId d) p i
     = (if p = path \<and> i = docId then Some d else lookupDoc s p i)"
  by (simp add: lookupDoc_def writeDoc_def update_conv')

lemma setDocument_result:
  assumes "db sv = Some s" and "pathAccepted sv path" and "backendFailure sv = None"
  shows "setDocument path docId data sv
         = (Inr (),
            (reach sv)\<lparr>db := Some (writeDoc s path docId
               (case lookupDoc s path docId of
                  None \<Rightarrow> resolveTimestamps (serverClock sv) (data(''updatedAt'' \<mapsto> ServerTimestampSentinel))
                | Some old \<Rightarrow> old ++ resolveTimestamps (serverClock sv) (data(''updatedAt'' \<mapsto> ServerTimestampSentinel))))\<rparr>)"
  using assms
  by (simp add: setDocument_def docRef_def setDocMerge_def rethrow_def reach_def Let_def)

subsection \<open>The guard on the handle\<close>

text \<open>
  Claim C7. Every operation of the data access layer (\<open>addDocument\<close>, \<open>setDocument\<close>,
  \<open>updateDocument\<close>, \<open>getDocument\<close>, \<open>deleteDocument\<close>, \<open>getAllDocuments\<close>) and both
  listener functions (\<open>listenToDocument\<close>, \<open>listenToCollection\<close>), called while the
  handle \<open>db\<close> is undefined, fail at once with the store-uninitialized error: the
  asynchronous operations throw \<open>Error("Firestore is not initialized.")\<close>, the listener
  functions hand \<open>Error("Firestore database is not initialized.")\<close> to \<open>onError\<close> and
  return the no-op unsubscribe function. In every case no call reaches the backend, no
  listener is registered and the handle stays undefined.
\<close>

theorem uninitialized_store_fails_fast:
  assumes "db sv = None"
  shows "fst (addDocument path data sv) = Inl (Error ''Firestore is not initialized.'')
       \<and> nothingSent sv (snd (addDocument path data sv))
       \<and> fst (setDocument path docId data sv) = Inl (Error ''Firestore is not initialized.'')
       \<and> nothingSent sv (snd (setDocument path docId data sv))
       \<and> fst (updateDocument path docId data sv) = Inl (Error ''Firestore is not initialized.'')
       \<and> nothingSent sv (snd (updateDocument path docId data sv))
       \<and> fst (getDocument path docId sv) = Inl (Error ''Firestore is not initialized.'')
       \<and> nothingSent sv (snd (getDocument path docId sv))
       \<and> fst (deleteDocument path docId sv) = Inl (Error ''Firestore is not initialized.'')
       \<and> nothingSent sv (snd (deleteDocument path docId sv))
       \<and> fst (getAllDocuments path sv) = Inl (Error ''Firestore is not initialized.'')
       \<and> nothingSent sv (snd (getAllDocuments path sv))
       \<and> fst (listenToDocument path docId sv)
            = Inr \<lparr>reported = Some (Error ''Firestore database is not initialized.''), unsubscribe = None\<rparr>
       \<and> nothingSent sv (snd (listenToDocument path docId sv))
       \<and> fst (listenToCollection path conditions sv)
            = Inr \<lparr>reported = Some (Error ''Firestore database is not initialized.''), unsubscribe = None\<rparr>
       \<and> nothingSent sv (snd (listenToCollection path conditions sv))"
proof -
  have a: "fst (addDocument path data sv) = Inl (Error ''Firestore is not initialized.'')"
    and a': "nothingSent sv (snd (addDocument path data sv))"
    using assms by (simp_all add: addDocument_def rethrow_fst nothingSent_rethrow nothingSent_console)
  have b: "fst (setDocument path docId data sv) = Inl (Error ''Firestore is not initialized.'')"
    and b': "nothingSent sv (snd (setDocument path docId data sv))"
    using assms by (simp_all add: setDocument_def rethrow_fst nothingSent_rethrow nothingSent_console)
  have c: "fst (updateDocument path docId data sv) = Inl (Error ''Firestore is not initialized.'')"
    and c': "nothingSent sv (snd (updateDocument path docId data sv))"
    using assms by (simp_all add: updateDocument_def rethrow_fst nothingSent_rethrow nothingSent_console)
  have d: "fst (getDocument path docId sv) = Inl (Error ''Firestore is not initialized.'')"
    and d': "nothingSent sv (snd (getDocument path docId sv))"
    using assms by (simp_all add: getDocument_def rethrow_fst nothingSent_rethrow nothingSent_console)
  have e: "fst (deleteDocument path docId sv) = Inl (Error ''Firestore is not initialized.'')"
    and e': "nothingSent sv (snd (deleteDocument path docId sv))"
    using assms by (simp_all add: deleteDocument_def rethrow_fst nothingSent_rethrow nothingSent_console)
  have f: "fst (getAllDocuments path sv) = Inl (Error ''Firestore is not initialized.'')"
    and f': "nothingSent sv (snd (getAllDocuments path sv))"
    using assms by (simp_all add: getAllDocuments_def rethrow_fst nothingSent_rethrow nothingSent_console)
  have g: "fst (listenToDocument path docId sv)
            = Inr \<lparr>reported = Some (Error ''Firestore database is not initialized.''), unsubscribe = None\<rparr>"
    and g': "nothingSent sv (snd (listenToDocument path docId sv))"
    using assms by (simp_all add: listenToDocument_def nothingSent_console)
  have h: "fst (listenToCollection path conditions sv)
            = Inr \<lparr>reported = Some (Error ''Firestore database is not initialized.''), unsubscribe = None\<rparr>"
    and h': "nothingSent sv (snd (listenToCollection path conditions sv))"
    using assms by (simp_all add: listenToCollection_def nothingSent_console)
  from a a' b b' c c' d d' e e' f f' g g' h h' show ?thesis by blast
qed

theorem uninitialized_store_fails_fast_witness:
  "db (sampleService None) = None
   \<and> fst (addDocument ''listings'' Map.empty (sampleService None))
        = Inl (Error ''Firestore is not initialized.'')
   \<and> fst (listenToCollection ''listings'' [] (sampleService None))
        = Inr \<lparr>reported = Some (Error ''Firestore database is not initialized.''), unsubscribe = None\<rparr>
   \<and> backendCalls (snd (getAllDocuments ''listings'' (sampleService None))) = 0"
proof -
  have h: "db (sampleService None) = None"
    by (simp add: sampleService_def)
  have z: "backendCalls (sampleService None) = 0"
    by (simp add: sampleService_def)
  from uninitialized_store_fails_fast [OF h, of "''listings''" Map.empty "[]" "[]"] h z
  show ?thesis by (simp add: nothingSent_def)
qed

subsection \<open>Filtered collection listeners\<close>

text \<open>
  When the handle is initialised, the path is accepted, every condition names a
  constraint and the client library accepts every constraint, \<open>listenToCollection\<close>
  creates a subscription.
\<close>

lemma applyConditions_all_accepted:
  assumes "list_all (\<lambda>c. constraintOf c \<noteq> None) conditions"
    and "\<And>q k. constraintAccepted sv q k"
  shows "\<exists>q. applyConditions sv conditions q0 = Inr q"
  using assms(1)
proof (induction conditions arbitrary: q0)
  case Nil
  then show ?case by simp
next
  case (Cons condition conditions)
  then obtain k where k: "constraintOf condition = Some k" by auto
  have "queryWhere sv q0 condition = Inr (Query (queryPath q0) (queryConstraints q0 @ [k]))"
    by (simp add: queryWhere_def k assms(2))
  moreover from Cons obtain q
    where "applyConditions sv conditions (Query (queryPath q0) (queryConstraints q0 @ [k])) = Inr q"
    by auto
  ultimately show ?case by simp
qed

lemma listenToCollection_creates:
  assumes "db sv = Some s0" and "pathAccepted sv collectionPath"
    and "list_all (\<lambda>c. constraintOf c \<noteq> None) conditions"
    and "\<And>q k. constraintAccepted sv q k"
  shows "\<exists>q. fst (listenToCollection collectionPath conditions sv)
               = Inr \<lparr>reported = None, unsubscribe = Some (QueryListener q)\<rparr>"
proof -
  from applyConditions_all_accepted [OF assms(3,4)] obtain q
    where "applyConditions sv conditions (collection collectionPath) = Inr q"
    by blast
  then show ?thesis using assms(1,2)
    by (simp add: listenToCollection_def collectionRef_def)
qed

text \<open>
  A condition that names no constraint makes \<open>listenToCollection\<close> throw: \<open>onError\<close>
  is not called, nothing is registered and nothing reaches the backend. An array given in
  place of a condition object, as in \<open>[['agentId', '==', userId]]\<close>, is such a condition.
\<close>

lemma listenToCollection_throws:
  assumes "db sv = Some s0" and "pathAccepted sv collectionPath"
    and "constraintOf condition = None"
  shows "listenToCollection collectionPath (condition # conditions) sv
         = (Inl (FirebaseError ''invalid-argument''), sv)"
  using assms
  by (simp add: listenToCollection_def collectionRef_def queryWhere_def)

lemma array_in_place_of_condition:
  "constraintOf \<lparr>field = Undefined, operator = Undefined, cvalue = Undefined\<rparr> = None"
  by (simp add: constraintOf_def)



subsection \<open>Merge semantics of \<open>setDocument\<close>\<close>

text \<open>
  Claim C10. \<open>setDocument\<close> on an existing document, with the handle initialised and
  the backend reachable, succeeds and writes with merge semantics: afterwards the
  document carries \<open>updatedAt\<close> set to the backend's clock, every field that the supplied
  data does not mention (other than \<open>updatedAt\<close>) has its previous value, and every
  other document of the store is as before.
\<close>

theorem setDocument_merge_frame:
  assumes "db sv = Some s" and "pathAccepted sv path" and "backendFailure sv = None"
    and "lookupDoc s path docId = Some old"
  shows "fst (setDocument path docId data sv) = Inr ()
       \<and> (\<exists>s' new. db (snd (setDocument path docId data sv)) = Some s'
             \<and> lookupDoc s' path docId = Some new
             \<and> new ''updatedAt'' = Some (ServerTime (serverClock sv))
             \<and> (\<forall>k. data k = None \<and> k \<noteq> ''updatedAt'' \<longrightarrow> new k = old k)
             \<and> (\<forall>p i. (p, i) \<noteq> (path, docId) \<longrightarrow> lookupDoc s' p i = lookupDoc s p i))"
proof -
  let ?new = "old ++ resolveTimestamps (serverClock sv) (data(''updatedAt'' \<mapsto> ServerTimestampSentinel))"
  let ?s' = "writeDoc s path docId ?new"
  have r: "setDocument path docId data sv = (Inr (), (reach sv)\<lparr>db := Some ?s'\<rparr>)"
    using setDocument_result [OF assms(1-3), of docId data] assms(4) by simp
  have 1: "lookupDoc ?s' path docId = Some ?new"
    by (simp add: lookupDoc_writeDoc)
  have 2: "?new ''updatedAt'' = Some (ServerTime (serverClock sv))"
    by (simp add: resolveTimestamps_def map_add_def)
  have 3: "\<forall>k. data k = None \<and> k \<noteq> ''updatedAt'' \<longrightarrow> ?new k = old k"
    by (simp add: resolveTimestamps_def map_add_def)
  have 4: "\<forall>p i. (p, i) \<noteq> (path, docId) \<longrightarrow> lookupDoc ?s' p i = lookupDoc s p i"
    by (simp add: lookupDoc_writeDoc)
  from r 1 2 3 4 show ?thesis by (simp del: fun_upd_apply)
qed

theorem setDocument_merge_frame_witness:
  "db (sampleService (Some sampleStore)) = Some sampleStore
   \<and> pathAccepted (sampleService (Some sampleStore)) ''listings''
   \<and> backendFailure (sampleService (Some sampleStore)) = None
   \<and> lookupDoc sampleStore ''listings'' ''L1'' = Some listingL1
   \<and> fst (setDocument ''listings'' ''L1'' [''price'' \<mapsto> Num 250] (sampleService (Some sampleStore)))
        = Inr ()
   \<and> (\<exists>s' new. db (snd (setDocument ''listings'' ''L1'' [''price'' \<mapsto> Num 250]
                            (sampleService (Some sampleStore)))) = Some s'
         \<and> lookupDoc s' ''listings'' ''L1'' = Some new
         \<and> new ''updatedAt'' = Some (ServerTime 1700)
         \<and> new ''title'' = Some (Str ''Flat'')
         \<and> lookupDoc s' ''listings'' ''L2'' = Some listingL2)"
proof -
  let ?sv = "sampleService (Some sampleStore)"
  have h1: "db ?sv = Some sampleStore"
    by (simp add: sampleService_def)
  have h2: "pathAccepted ?sv ''listings''"
    by (simp add: sampleService_def)
  have h3: "backendFailure ?sv = None"
    by (simp add: sampleService_def)
  have h4: "lookupDoc sampleStore ''listings'' ''L1'' = Some listingL1"
    by (simp add: lookupDoc_def sampleStore_def)
  have clock: "serverClock ?sv = 1700"
    by (simp add: sampleService_def)
  have title: "listingL1 ''title'' = Some (Str ''Flat'')"
    by (simp add: listingL1_def)
  have other: "lookupDoc sampleStore ''listings'' ''L2'' = Some listingL2"
    by (simp add: lookupDoc_def sampleStore_def)
  from setDocument_merge_frame [OF h1 h2 h3 h4, of "[''price'' \<mapsto> Num 250]"]
  obtain s' new where
    r: "fst (setDocument ''listings'' ''L1'' [''price'' \<mapsto> Num 250] ?sv) = Inr ()"
    and d: "db (snd (setDocument ''listings'' ''L1'' [''price'' \<mapsto> Num 250] ?sv)) = Some s'"
    and n: "lookupDoc s' ''listings'' ''L1'' = Some new"
    and u: "new ''updatedAt'' = Some (ServerTime (serverClock ?sv))"
    and k: "\<forall>k. [''price'' \<mapsto> Num 250] k = None \<and> k \<noteq> ''updatedAt'' \<longrightarrow> new k = listingL1 k"
    and f: "\<forall>p i. (p, i) \<noteq> (''listings'', ''L1'') \<longrightarrow> lookupDoc s' p i = lookupDoc sampleStore p i"
    by blast
  from k have t: "new ''title'' = Some (Str ''Flat'')"
    using title by simp
  from f have o: "lookupDoc s' ''listings'' ''L2'' = Some listingL2"
    using other by simp
  from h1 h2 h3 h4 r d n u t o clock show ?thesis by auto
qed

section \<open>Verified properties of context/AuthContext.js\<close>

subsection \<open>Auxiliary facts\<close>

lemmas setters = setIsAuthenticated_def setUser_def setUserRole_def setIsLoadingAuth_def
  setUserId_def publish_def contextOf_def

lemmas collaborator_defs = signInWithEmailAndPassword_def createUserWithEmailAndPassword_def
  signOut_def getDoc_profile_def setDoc_profile_def getItemAsync_def setItemAsync_def
  deleteItemAsync_def console_log_def profilesPath_def

subsection \<open>Warm start from the cached role\<close>

text \<open>
  Claim C9. When the listener is notified of an identity and SecureStore holds a
  non-empty role under \<open>userRole\<close>, the listener adopts that role, marks the session
  authenticated for the notified identity, ends the loading phase, and makes no call to
  the remote store (the store is not read and not written).
\<close>

theorem cached_role_adopted_without_store_call:
  assumes "secureStore w ''userRole'' = Some cachedRole" and "cachedRole \<noteq> []"
  shows "fst (authStateChanged env (Some currentUser) w) = Inr ()
       \<and> userRole (snd (authStateChanged env (Some currentUser) w)) = Str cachedRole
       \<and> isAuthenticated (snd (authStateChanged env (Some currentUser) w))
       \<and> user (snd (authStateChanged env (Some currentUser) w)) = Some currentUser
       \<and> \<not> isLoadingAuth (snd (authStateChanged env (Some currentUser) w))
       \<and> firestoreCalls (snd (authStateChanged env (Some currentUser) w)) = firestoreCalls w
       \<and> firestoreDb (snd (authStateChanged env (Some currentUser) w)) = firestoreDb w"
  using assms
  by (simp add: authStateChanged_def Let_def getItemAsync_def resolved_def setters)

theorem cached_role_adopted_without_store_call_witness:
  "secureStore (sampleState (Some ada) (Some ''agent'') None) ''userRole'' = Some ''agent''
   \<and> ''agent'' \<noteq> []
   \<and> userRole (snd (authStateChanged (sampleEnv None) (Some ada)
                      (sampleState (Some ada) (Some ''agent'') None))) = Str ''agent''
   \<and> isAuthenticated (snd (authStateChanged (sampleEnv None) (Some ada)
                             (sampleState (Some ada) (Some ''agent'') None)))
   \<and> firestoreCalls (snd (authStateChanged (sampleEnv None) (Some ada)
                            (sampleState (Some ada) (Some ''agent'') None))) = 0"
proof -
  let ?w = "sampleState (Some ada) (Some ''agent'') None"
  have h: "secureStore ?w ''userRole'' = Some ''agent''"
    by (simp add: sampleState_def)
  have c: "firestoreCalls ?w = 0"
    by (simp add: sampleState_def)
  from cached_role_adopted_without_store_call [OF h, of "sampleEnv None" ada] h c
  show ?thesis by simp
qed

subsection \<open>Login without a profile\<close>



text \<open>
  When the sign-out itself fails, \<open>login\<close> throws the error of the sign-out in place
  of the profile-not-found error, and the identity is still signed in at Firebase Auth.
\<close>

lemma login_no_profile_signOut_fails:
  assumes "signIn env mail password = Inr u"
    and "firestoreFailure env = None"
    and "lookupDoc (firestoreDb w) (profilesPath env (uid u)) (uid u) = None"
    and "signOutFailure env = Some e"
  shows "fst (login env mail password w) = Inl e
       \<and> authCurrentUser (snd (login env mail password w)) = Some u
       \<and> userId (snd (login env mail password w)) = Some (uid u)"
  using assms
  by (simp add: login_def login_try_def signInWithEmailAndPassword_def getDoc_profile_def
        signOut_def Let_def setters console_log_def)


subsection \<open>A store error during role resolution\<close>

text \<open>
  Whenever the listener is notified of an identity, SecureStore holds no truthy role and
  the store answers with an error, the promise of the listener rejects with that error
  right after the two setters of the identity: nothing else is set, cleared or logged.
\<close>

lemma authStateChanged_store_failure:
  assumes "firestoreFailure env = Some e" and "\<not> truthy (getItemAsync ''userRole'' w)"
  shows "authStateChanged env (Some u) w
         = (Inl e, (setUserId (Some (uid u)) (setUser (Some u) w))
                     \<lparr>firestoreCalls := Suc (firestoreCalls w)\<rparr>)"
proof -
  have "\<not> truthy (getItemAsync ''userRole'' (setUserId (Some (uid u)) (setUser (Some u) w)))"
    using assms(2) by (simp add: getItemAsync_def setters)
  then show ?thesis using assms(1)
    by (simp add: authStateChanged_def getDoc_profile_def Let_def setters)
qed

text \<open>
  Claim C2 says that a store error during role resolution ends with the role state and
  the role cache cleared, the session unauthenticated and the error logged. Evaluated on
  the code: Ada's identity is persisted, SecureStore holds no role and the store answers
  \<open>unavailable\<close>. The promise of the listener rejects with that error and nothing
  catches it. The state is left with the user and the user id set, not authenticated and
  still loading, and nothing was written to the console: the session is not reset to the
  unauthenticated state, the bootstrap never ends, and the error is not logged.
\<close>

theorem listener_store_error_left_unhandled:
  "fst (bootstrap (sampleEnv (Some (FirebaseError ''unavailable'')))
          (sampleState (Some ada) None (Some agentProfile)))
     = Inl (FirebaseError ''unavailable'')
   \<and> user (snd (bootstrap (sampleEnv (Some (FirebaseError ''unavailable'')))
                   (sampleState (Some ada) None (Some agentProfile)))) = Some ada
   \<and> userId (snd (bootstrap (sampleEnv (Some (FirebaseError ''unavailable'')))
                     (sampleState (Some ada) None (Some agentProfile)))) = Some ''u1''
   \<and> \<not> isAuthenticated (snd (bootstrap (sampleEnv (Some (FirebaseError ''unavailable'')))
                                (sampleState (Some ada) None (Some agentProfile))))
   \<and> isLoadingAuth (snd (bootstrap (sampleEnv (Some (FirebaseError ''unavailable'')))
                            (sampleState (Some ada) None (Some agentProfile))))
   \<and> consoleLog (snd (bootstrap (sampleEnv (Some (FirebaseError ''unavailable'')))
                         (sampleState (Some ada) None (Some agentProfile)))) = []"
  by (simp add: bootstrap_def initializeFirebase_def mounted_def authStateChanged_def Let_def
        sampleEnv_def sampleState_def ada_def collaborator_defs setters)

subsection \<open>A failed profile write during registration\<close>

text \<open>
  Whenever the sign-up succeeds and the write of the profile fails, \<open>register\<close> throws
  the error of the write, and the identity created is still signed in at Firebase Auth:
  \<open>signOut\<close> was not called.
\<close>

lemma register_write_failure:
  assumes "signUp env mail password = Inr u" and "firestoreFailure env = Some e"
  shows "fst (register env mail password role firstName lastName phoneNumber agentDetails w) = Inl e
       \<and> authCurrentUser (snd (register env mail password role firstName lastName phoneNumber
                                   agentDetails w)) = Some u
       \<and> signOutCalls (snd (register env mail password role firstName lastName phoneNumber
                                agentDetails w)) = signOutCalls w
       \<and> firestoreDb (snd (register env mail password role firstName lastName phoneNumber
                               agentDetails w)) = firestoreDb w"
  using assms
  by (simp add: register_def register_try_def createUserWithEmailAndPassword_def
        setDoc_profile_def console_log_def Let_def setters)

text \<open>
  Claim C3 says that \<open>register\<close> forces a sign-out when the profile write fails after
  the sign-up. Evaluated on the code: Bob's sign-up succeeds and the write of his profile
  fails with \<open>unavailable\<close>. \<open>register\<close> throws that error; \<open>signOut\<close> was never
  called, Bob is still the identity signed in at Firebase Auth, and he has no profile.
\<close>

theorem register_write_failure_stays_signed_in:
  "fst (register (sampleEnv (Some (FirebaseError ''unavailable''))) ''bob@example.com'' ''secret2''
          ''renter'' ''Bob'' ''Ray'' ''08012345678'' None (sampleState None None None))
     = Inl (FirebaseError ''unavailable'')
   \<and> authCurrentUser (snd (register (sampleEnv (Some (FirebaseError ''unavailable'')))
          ''bob@example.com'' ''secret2'' ''renter'' ''Bob'' ''Ray'' ''08012345678'' None
          (sampleState None None None))) = Some bob
   \<and> signOutCalls (snd (register (sampleEnv (Some (FirebaseError ''unavailable'')))
          ''bob@example.com'' ''secret2'' ''renter'' ''Bob'' ''Ray'' ''08012345678'' None
          (sampleState None None None))) = 0
   \<and> lookupDoc (firestoreDb (snd (register (sampleEnv (Some (FirebaseError ''unavailable'')))
          ''bob@example.com'' ''secret2'' ''renter'' ''Bob'' ''Ray'' ''08012345678'' None
          (sampleState None None None)))) ''artifacts/rentopia/users/u2/profiles'' ''u2'' = None"
  by (simp add: register_def register_try_def Let_def sampleEnv_def sampleState_def bob_def
        collaborator_defs setters lookupDoc_def)

subsection \<open>Overlapping role resolutions\<close>

lemma authStateChanged_split:
  assumes "\<not> truthy (getItemAsync ''userRole'' w)"
  shows "authStateChanged env (Some u) w
         = (case resolutionStart env u w of
              (Inl e, w1) \<Rightarrow> (Inl e, w1)
            | (Inr userDocSnap, w1) \<Rightarrow> profileContinuation env userDocSnap w1)"
proof -
  have "\<not> truthy (getItemAsync ''userRole'' (setUserId (Some (uid u)) (setUser (Some u) w)))"
    using assms by (simp add: getItemAsync_def setters)
  then show ?thesis
    by (simp add: authStateChanged_def resolutionStart_def Let_def)
qed

text \<open>
  Claim C6 does not hold as stated. Ada's identity is notified, SecureStore holds no
  role, and the listener is suspended at \<open>getDoc\<close>. A notification without identity is
  then handled: the state is cleared. When the first listener resumes with Ada's profile,
  it marks the session authenticated with her role and writes the role to SecureStore,
  although the latest notification carried no identity: user and user id stay empty.
  Two passes were in flight together and the stale one wrote the state and the cache.
\<close>

theorem stale_resolution_after_sign_out:
  "fst (resumedAfterSignOut (sampleEnv None) ada (sampleState (Some ada) None (Some agentProfile)))
     = Inr ()
   \<and> user (snd (resumedAfterSignOut (sampleEnv None) ada
                   (sampleState (Some ada) None (Some agentProfile)))) = None
   \<and> userId (snd (resumedAfterSignOut (sampleEnv None) ada
                     (sampleState (Some ada) None (Some agentProfile)))) = None
   \<and> isAuthenticated (snd (resumedAfterSignOut (sampleEnv None) ada
                              (sampleState (Some ada) None (Some agentProfile))))
   \<and> userRole (snd (resumedAfterSignOut (sampleEnv None) ada
                       (sampleState (Some ada) None (Some agentProfile)))) = Str ''agent''
   \<and> secureStore (snd (resumedAfterSignOut (sampleEnv None) ada
                          (sampleState (Some ada) None (Some agentProfile)))) ''userRole''
        = Some ''agent''"
  by (simp add: resumedAfterSignOut_def resolutionStart_def authStateChanged_def
        profileContinuation_def resolved_def Let_def getProp_def
        sampleEnv_def sampleState_def ada_def agentProfile_def lookupDoc_def
        collaborator_defs setters)

text \<open>
  Claim C6, amended. A resolution that resumes with a profile carrying a role applies
  its result whatever happened since it was suspended: in any state \<open>w\<close> it sets the
  role and the authenticated flag and writes the role to SecureStore, and it neither
  compares nor restores the identity (user, user id and the identity signed in at Firebase
  Auth are those of \<open>w\<close>).
\<close>

theorem stale_resolution_applies_result:
  assumes "getProp userData ''role'' = Str role"
  shows "fst (profileContinuation env (Some userData) w) = Inr ()
       \<and> userRole (snd (profileContinuation env (Some userData) w)) = Str role
       \<and> isAuthenticated (snd (profileContinuation env (Some userData) w))
       \<and> secureStore (snd (profileContinuation env (Some userData) w)) ''userRole'' = Some role
       \<and> user (snd (profileContinuation env (Some userData) w)) = user w
       \<and> userId (snd (profileContinuation env (Some userData) w)) = userId w
       \<and> authCurrentUser (snd (profileContinuation env (Some userData) w)) = authCurrentUser w"
  using assms
  by (simp add: profileContinuation_def resolved_def Let_def setItemAsync_def setters)

theorem stale_resolution_applies_result_witness:
  "getProp agentProfile ''role'' = Str ''agent''
   \<and> user (snd (authStateChanged (sampleEnv None) None (sampleState None None (Some agentProfile)))) = None
   \<and> isAuthenticated (snd (profileContinuation (sampleEnv None) (Some agentProfile)
        (snd (authStateChanged (sampleEnv None) None (sampleState None None (Some agentProfile))))))
   \<and> user (snd (profileContinuation (sampleEnv None) (Some agentProfile)
        (snd (authStateChanged (sampleEnv None) None (sampleState None None (Some agentProfile)))))) = None
   \<and> secureStore (snd (profileContinuation (sampleEnv None) (Some agentProfile)
        (snd (authStateChanged (sampleEnv None) None (sampleState None None (Some agentProfile))))))
        ''userRole'' = Some ''agent''"
proof -
  let ?w = "snd (authStateChanged (sampleEnv None) None (sampleState None None (Some agentProfile)))"
  have h: "getProp agentProfile ''role'' = Str ''agent''"
    by (simp add: getProp_def agentProfile_def)
  have u: "user ?w = None"
    by (simp add: authStateChanged_def resolved_def Let_def deleteItemAsync_def setters)
  from stale_resolution_applies_result [OF h, of "sampleEnv None" ?w] h u
  show ?thesis by simp
qed

subsection \<open>An authenticated session has a role\<close>

text \<open>
  The listener, the bootstrap and the three commands, run from a reachable state to their
  end, stay within the reachable states, provided the profile that they read (if any)
  is a document of \<open>D\<close>.
\<close>

lemma truthy_nonNull: "truthy v \<Longrightarrow> nonNull v"
  by (cases v) (simp_all add: nonNull_def)

lemma reachable_console_log: "reachable D w \<Longrightarrow> reachable D (console_log msg w)"
  by (erule reachable.collaborators) (simp_all add: console_log_def contextOf_def)

lemma reachable_deleteItemAsync: "reachable D w \<Longrightarrow> reachable D (deleteItemAsync k w)"
  by (erule reachable.collaborators) (simp_all add: deleteItemAsync_def contextOf_def)

lemma reachable_setItemAsync: "reachable D w \<Longrightarrow> reachable D (snd (setItemAsync k v w))"
  by (erule reachable.collaborators)
     (simp_all add: setItemAsync_def contextOf_def split: jsval.splits)

lemma reachable_signOut: "reachable D w \<Longrightarrow> reachable D (snd (signOut env w))"
  by (erule reachable.collaborators)
     (simp_all add: signOut_def contextOf_def Let_def split: option.splits)

lemma reachable_getDoc_profile: "reachable D w \<Longrightarrow> reachable D (snd (getDoc_profile env p i w))"
  by (erule reachable.collaborators)
     (simp_all add: getDoc_profile_def contextOf_def Let_def split: option.splits)

lemma reachable_setDoc_profile: "reachable D w \<Longrightarrow> reachable D (snd (setDoc_profile env p i d w))"
  by (erule reachable.collaborators)
     (simp_all add: setDoc_profile_def contextOf_def Let_def split: option.splits)

lemma reachable_signIn: "reachable D w \<Longrightarrow> reachable D (snd (signInWithEmailAndPassword env m pw w))"
  by (erule reachable.collaborators)
     (simp_all add: signInWithEmailAndPassword_def contextOf_def split: sum.splits)

lemma reachable_createUser: "reachable D w \<Longrightarrow> reachable D (snd (createUserWithEmailAndPassword env m pw w))"
  by (erule reachable.collaborators)
     (simp_all add: createUserWithEmailAndPassword_def contextOf_def split: sum.splits)

lemma reachable_resolved: "reachable D (snd r) \<Longrightarrow> reachable D (snd (resolved r))"
  by (cases r) (auto simp: resolved_def split: sum.splits intro: reachable.loading)

lemma reachable_profileContinuation:
  assumes "reachable D w"
    and "case userDocSnap of None \<Rightarrow> True | Some userData \<Rightarrow> D userData"
  shows "reachable D (snd (profileContinuation env userDocSnap w))"
proof (cases userDocSnap)
  case None
  have "reachable D (snd (signOut env (deleteItemAsync ''userRole''
          (setUserId None (setUserRole Null (setUser None (setIsAuthenticated False
             (console_log ''User profile not found in Firestore for authenticated user. Logging out.'' w))))))))"
    by (intro reachable_signOut reachable_deleteItemAsync reachable.profile_missing
          reachable_console_log assms(1))
  then show ?thesis using None
    by (simp add: profileContinuation_def Let_def reachable_resolved)
next
  case (Some userData)
  with assms(2) have r: "D userData" by simp
  have "reachable D (snd (setItemAsync ''userRole'' (getProp userData ''role'')
          (setIsAuthenticated True (setUserRole (getProp userData ''role'') w))))"
    by (intro reachable_setItemAsync reachable.adopt_profile assms(1) r)
  then show ?thesis using Some
    by (simp add: profileContinuation_def Let_def reachable_resolved)
qed

lemma getDoc_profile_snapshot:
  "fst (getDoc_profile env p i w) = Inr snap \<Longrightarrow> snap = lookupDoc (firestoreDb w) p i"
  by (auto simp: getDoc_profile_def Let_def split: option.splits)

lemma reachable_authStateChanged:
  assumes "reachable D w"
    and "case notified of None \<Rightarrow> True | Some u \<Rightarrow> profileIn D env (uid u) w"
  shows "reachable D (snd (authStateChanged env notified w))"
proof (cases notified)
  case None
  have "reachable D (deleteItemAsync ''userRole''
          (setUserId None (setUserRole Null (setIsAuthenticated False (setUser None w)))))"
    by (intro reachable_deleteItemAsync reachable.signed_out assms(1))
  then have "reachable D (snd (resolved (Inr (), deleteItemAsync ''userRole''
          (setUserId None (setUserRole Null (setIsAuthenticated False (setUser None w)))))))"
    by (intro reachable_resolved) simp
  then show ?thesis using None by (simp add: authStateChanged_def Let_def)
next
  case (Some u)
  let ?w2 = "setUserId (Some (uid u)) (setUser (Some u) w)"
  have w2: "reachable D ?w2" by (intro reachable.identity assms(1))
  show ?thesis
  proof (cases "truthy (getItemAsync ''userRole'' ?w2)")
    case True
    then have "reachable D (setIsAuthenticated True (setUserRole (getItemAsync ''userRole'' ?w2) ?w2))"
      by (intro reachable.adopt_cached w2)
    then have "reachable D (snd (resolved (Inr (),
                 setIsAuthenticated True (setUserRole (getItemAsync ''userRole'' ?w2) ?w2))))"
      by (intro reachable_resolved) simp
    then show ?thesis using Some True by (simp add: authStateChanged_def Let_def)
  next
    case False
    obtain r w3 where g: "getDoc_profile env (profilesPath env (uid u)) (uid u) ?w2 = (r, w3)"
      by (cases "getDoc_profile env (profilesPath env (uid u)) (uid u) ?w2")
    have w3: "reachable D w3"
      using reachable_getDoc_profile [OF w2, of env "profilesPath env (uid u)" "uid u"] g by simp
    show ?thesis
    proof (cases r)
      case (Inl e)
      then show ?thesis using Some False g w3 by (simp add: authStateChanged_def Let_def)
    next
      case (Inr snap)
      with g have "snap = lookupDoc (firestoreDb ?w2) (profilesPath env (uid u)) (uid u)"
        using getDoc_profile_snapshot [of env "profilesPath env (uid u)" "uid u" ?w2 snap] by simp
      then have "snap = lookupDoc (firestoreDb w) (profilesPath env (uid u)) (uid u)"
        by (simp add: setters)
      with assms(2) Some
      have "case snap of None \<Rightarrow> True | Some userData \<Rightarrow> D userData"
        by (simp add: profileIn_def)
      from reachable_profileContinuation [OF w3 this]
      show ?thesis using Some False g Inr by (simp add: authStateChanged_def Let_def)
    qed
  qed
qed


lemma signIn_firestoreDb:
  "firestoreDb (snd (signInWithEmailAndPassword env m pw w)) = firestoreDb w"
  by (simp add: signInWithEmailAndPassword_def split: sum.splits)

lemma signIn_identity:
  "fst (signInWithEmailAndPassword env m pw w) = Inr u \<Longrightarrow> signIn env m pw = Inr u"
  by (simp add: signInWithEmailAndPassword_def split: sum.splits)

lemma reachable_login_try:
  assumes "reachable D w"
    and "case signIn env mail password of Inl e \<Rightarrow> True | Inr u \<Rightarrow> profileIn D env (uid u) w"
  shows "reachable D (snd (login_try env mail password w))"
proof -
  obtain r w1 where s: "signInWithEmailAndPassword env mail password w = (r, w1)"
    by (cases "signInWithEmailAndPassword env mail password w")
  have w1: "reachable D w1"
    using reachable_signIn [OF assms(1), of env mail password] s by simp
  have db1: "firestoreDb w1 = firestoreDb w"
    using signIn_firestoreDb [of env mail password w] s by simp
  show ?thesis
  proof (cases r)
    case (Inl e)
    then show ?thesis using s w1 by (simp add: login_try_def)
  next
    case (Inr u)
    with s have "signIn env mail password = Inr u"
      using signIn_identity [of env mail password w u] by simp
    with assms(2) have has: "profileIn D env (uid u) w" by simp
    let ?w3 = "setUserId (Some (uid u)) (setUser (Some u) w1)"
    have w3: "reachable D ?w3" by (intro reachable.identity w1)
    obtain g w4 where g: "getDoc_profile env (profilesPath env (uid u)) (uid u) ?w3 = (g, w4)"
      by (cases "getDoc_profile env (profilesPath env (uid u)) (uid u) ?w3")
    have w4: "reachable D w4"
      using reachable_getDoc_profile [OF w3, of env "profilesPath env (uid u)" "uid u"] g by simp
    show ?thesis
    proof (cases g)
      case (Inl e)
      then show ?thesis using s Inr g w4 by (simp add: login_try_def Let_def)
    next
      case snap: (Inr userDocSnap)
      with g have "userDocSnap = lookupDoc (firestoreDb ?w3) (profilesPath env (uid u)) (uid u)"
        using getDoc_profile_snapshot [of env "profilesPath env (uid u)" "uid u" ?w3 userDocSnap]
        by simp
      then have look: "userDocSnap = lookupDoc (firestoreDb w) (profilesPath env (uid u)) (uid u)"
        by (simp add: setters db1)
      show ?thesis
      proof (cases userDocSnap)
        case None
        have "reachable D (snd (signOut env (setIsAuthenticated False
                (console_log ''User profile not found after login. Role not set. Forcing logout.'' w4))))"
          by (intro reachable_signOut reachable.no_profile reachable_console_log w4)
        then show ?thesis using s Inr g snap None
          by (auto simp: login_try_def Let_def split: prod.splits sum.splits)
      next
        case (Some userData)
        with look have "lookupDoc (firestoreDb w) (profilesPath env (uid u)) (uid u) = Some userData"
          by simp
        with has have "D userData"
          by (simp add: profileIn_def)
        then have "reachable D (snd (setItemAsync ''userRole'' (getProp userData ''role'')
                (setIsAuthenticated True (setUserRole (getProp userData ''role'') w4))))"
          by (intro reachable_setItemAsync reachable.adopt_profile w4)
        then show ?thesis using s Inr g snap Some by (simp add: login_try_def Let_def)
      qed
    qed
  qed
qed

lemma reachable_login:
  assumes "reachable D w"
    and "case signIn env mail password of Inl e \<Rightarrow> True | Inr u \<Rightarrow> profileIn D env (uid u) w"
  shows "reachable D (snd (login env mail password w))"
proof -
  let ?w1 = "setIsLoadingAuth True w"
  have "case signIn env mail password of Inl e \<Rightarrow> True | Inr u \<Rightarrow> profileIn D env (uid u) ?w1"
    using assms(2) by (simp add: profileIn_def setters split: sum.splits)
  from reachable_login_try [OF reachable.loading [OF assms(1)] this]
  have t: "reachable D (snd (login_try env mail password ?w1))" .
  obtain r w2 where l: "login_try env mail password ?w1 = (r, w2)"
    by (cases "login_try env mail password ?w1")
  with t have w2: "reachable D w2" by simp
  show ?thesis
  proof (cases r)
    case (Inl e)
    have "reachable D (setIsLoadingAuth False (setUserRole Null (setUser None
            (setIsAuthenticated False (console_log ''Login failed:'' w2)))))"
      by (intro reachable.loading reachable.rollback reachable_console_log w2)
    then show ?thesis using l Inl by (simp add: login_def Let_def)
  next
    case (Inr u)
    have "reachable D (setIsLoadingAuth False w2)"
      by (intro reachable.loading w2)
    then show ?thesis using l Inr by (simp add: login_def Let_def)
  qed
qed

lemma reachable_register_try:
  assumes "reachable D w"
  shows "reachable D (snd (register_try env mail password role firstName lastName phoneNumber agentDetails w))"
proof -
  obtain r w1 where s: "createUserWithEmailAndPassword env mail password w = (r, w1)"
    by (cases "createUserWithEmailAndPassword env mail password w")
  have w1: "reachable D w1"
    using reachable_createUser [OF assms(1), of env mail password] s by simp
  show ?thesis
  proof (cases r)
    case (Inl e)
    then show ?thesis using s w1 by (simp add: register_try_def)
  next
    case (Inr u)
    let ?w3 = "setUserId (Some (uid u)) (setUser (Some u) w1)"
    have w3: "reachable D ?w3" by (intro reachable.identity w1)
    define profileData where "profileData =
                 [''email'' \<mapsto> Str mail,
                  ''role'' \<mapsto> Str role,
                  ''firstName'' \<mapsto> Str firstName,
                  ''lastName'' \<mapsto> Str lastName,
                  ''phoneNumber'' \<mapsto> Str phoneNumber,
                  ''createdAt'' \<mapsto> ClientDate (deviceClock ?w3),
                  ''userId'' \<mapsto> Str (uid u)]
                 ++ (case agentDetails of
                       Some details \<Rightarrow> if role = ''agent'' then details else Map.empty
                     | None \<Rightarrow> Map.empty)"
    obtain g w4 where g: "setDoc_profile env (profilesPath env (uid u)) (uid u) profileData ?w3 = (g, w4)"
      by (cases "setDoc_profile env (profilesPath env (uid u)) (uid u) profileData ?w3")
    have w4: "reachable D w4"
      using reachable_setDoc_profile [OF w3, of env "profilesPath env (uid u)" "uid u" profileData] g
      by simp
    show ?thesis
    proof (cases g)
      case (Inl e)
      then show ?thesis using s Inr g w4
        by (simp add: register_try_def Let_def profileData_def)
    next
      case written: (Inr x)
      have "reachable D (snd (setItemAsync ''userRole'' (Str role)
                (setIsAuthenticated True (setUserRole (Str role) w4))))"
        by (intro reachable_setItemAsync reachable.adopt_registered w4)
      then show ?thesis using s Inr g written
        by (simp add: register_try_def Let_def profileData_def)
    qed
  qed
qed

lemma reachable_register:
  assumes "reachable D w"
  shows "reachable D (snd (register env mail password role firstName lastName phoneNumber agentDetails w))"
proof -
  let ?w1 = "setIsLoadingAuth True w"
  let ?t = "register_try env mail password role firstName lastName phoneNumber agentDetails ?w1"
  have t: "reachable D (snd ?t)"
    by (intro reachable_register_try reachable.loading assms)
  obtain r w2 where l: "?t = (r, w2)"
    by (cases ?t)
  with t have w2: "reachable D w2" by simp
  show ?thesis
  proof (cases r)
    case (Inl e)
    have "reachable D (setIsLoadingAuth False (setUserRole Null (setUser None
            (setIsAuthenticated False (console_log ''Registration failed:'' w2)))))"
      by (intro reachable.loading reachable.rollback reachable_console_log w2)
    then show ?thesis using l Inl by (simp add: register_def Let_def)
  next
    case (Inr u)
    have "reachable D (setIsLoadingAuth False w2)"
      by (intro reachable.loading w2)
    then show ?thesis using l Inr by (simp add: register_def Let_def)
  qed
qed

lemma reachable_logout:
  assumes "reachable D w"
  shows "reachable D (snd (logout env w))"
proof -
  let ?w1 = "setIsLoadingAuth True w"
  have t: "reachable D (snd (signOut env ?w1))"
    by (intro reachable_signOut reachable.loading assms)
  obtain r w2 where l: "signOut env ?w1 = (r, w2)"
    by (cases "signOut env ?w1")
  with t have w2: "reachable D w2" by simp
  show ?thesis
  proof (cases r)
    case (Inl e)
    have "reachable D (setIsLoadingAuth False (console_log ''Logout failed:'' w2))"
      by (intro reachable.loading reachable_console_log w2)
    then show ?thesis using l Inl by (simp add: logout_def Let_def)
  next
    case (Inr u)
    have "reachable D (setIsLoadingAuth False w2)"
      by (intro reachable.loading w2)
    then show ?thesis using l Inr by (simp add: logout_def Let_def)
  qed
qed

lemma reachable_bootstrap:
  assumes "case authCurrentUser w of None \<Rightarrow> True | Some u \<Rightarrow> profileIn D env (uid u) w"
  shows "reachable D (snd (bootstrap env w))"
proof (cases "initFailure env")
  case None
  have m: "case authCurrentUser (mounted w) of None \<Rightarrow> True
           | Some u \<Rightarrow> profileIn D env (uid u) (mounted w)"
    using assms by (simp add: mounted_def profileIn_def split: option.splits)
  from reachable_authStateChanged [OF reachable.mount m]
  show ?thesis using None by (simp add: bootstrap_def initializeFirebase_def)
next
  case (Some e)
  have "reachable D (deleteItemAsync ''userRole'' (setUserId None (setUserRole Null (setUser None
          (setIsAuthenticated False (setIsLoadingAuth False
             (console_log ''Error initializing Firebase or during initial auth check:'' (mounted w))))))))"
    by (intro reachable_deleteItemAsync reachable.init_failed reachable_console_log reachable.mount)
  then show ?thesis using Some by (simp add: bootstrap_def initializeFirebase_def Let_def)
qed
text \<open>
  Claim C1 does not hold as stated. Ada's identity is persisted, SecureStore holds no
  role, and her profile document exists but has no field \<open>role\<close>: the listener reads
  \<open>undefined\<close>, sets it as the role and marks the session authenticated.
\<close>

theorem roleless_profile_authenticates:
  "\<not> roleKnown (contextOf (snd (bootstrap (sampleEnv None)
                                   (sampleState (Some ada) None (Some rolelessProfile)))))"
  by (simp add: roleKnown_def nonNull_def bootstrap_def initializeFirebase_def mounted_def
        authStateChanged_def profileContinuation_def resolved_def Let_def getProp_def
        sampleEnv_def sampleState_def ada_def rolelessProfile_def lookupDoc_def
        collaborator_defs setters)

text \<open>
  Claim C1, amended. Provided every profile document that the store may answer with
  carries a known role: in every state that the provider can reach, in any interleaving
  of the listener and the commands, every context value published so far (one after each
  single state setter) and the current one are either not authenticated or have a known
  role.
\<close>

theorem authenticated_role_known:
  assumes "\<forall>userData. D userData \<longrightarrow> nonNull (getProp userData ''role'')"
    and "reachable D w"
  shows "list_all roleKnown (rendered w) \<and> roleKnown (contextOf w)"
  using assms(2)
proof (induction rule: reachable.induct)
  case (mount w)
  show ?case by (simp add: mounted_def roleKnown_def contextOf_def)
next
  case (collaborators w w')
  then show ?case by simp
next
  case (loading w b)
  then show ?case by (simp add: setters roleKnown_def)
next
  case (identity w u)
  then show ?case by (simp add: setters roleKnown_def)
next
  case (adopt_cached w storedRole)
  then show ?case by (simp add: setters roleKnown_def truthy_nonNull)
next
  case (adopt_profile w userData)
  with assms(1) have "nonNull (getProp userData ''role'')" by simp
  with adopt_profile show ?case by (simp add: setters roleKnown_def)
next
  case (adopt_registered w role)
  then show ?case by (simp add: setters roleKnown_def nonNull_def)
next
  case (profile_missing w)
  then show ?case by (simp add: setters roleKnown_def)
next
  case (signed_out w)
  then show ?case by (simp add: setters roleKnown_def)
next
  case (no_profile w)
  then show ?case by (simp add: setters roleKnown_def)
next
  case (rollback w)
  then show ?case by (simp add: setters roleKnown_def)
next
  case (init_failed w)
  then show ?case by (simp add: setters roleKnown_def)
qed

theorem authenticated_role_known_witness:
  "reachable hasRole (snd (login (sampleEnv None) ''ada@example.com'' ''secret1''
                            (mounted (sampleState None None (Some agentProfile)))))
   \<and> list_all roleKnown
         (rendered (snd (login (sampleEnv None) ''ada@example.com'' ''secret1''
                           (mounted (sampleState None None (Some agentProfile))))))
   \<and> isAuthenticated (snd (login (sampleEnv None) ''ada@example.com'' ''secret1''
                             (mounted (sampleState None None (Some agentProfile)))))
   \<and> roleKnown
         (contextOf (snd (login (sampleEnv None) ''ada@example.com'' ''secret1''
                            (mounted (sampleState None None (Some agentProfile))))))"
proof -
  let ?w = "mounted (sampleState None None (Some agentProfile))"
  have d: "\<forall>userData. hasRole userData \<longrightarrow> nonNull (getProp userData ''role'')"
    by (simp add: hasRole_def)
  have s: "signIn (sampleEnv None) ''ada@example.com'' ''secret1'' = Inr ada"
    by (simp add: sampleEnv_def)
  have p: "profileIn hasRole (sampleEnv None) (uid ada) ?w"
    by (simp add: profileIn_def hasRole_def mounted_def sampleState_def lookupDoc_def
          profilesPath_def sampleEnv_def ada_def agentProfile_def getProp_def nonNull_def)
  have r: "reachable hasRole (snd (login (sampleEnv None) ''ada@example.com'' ''secret1'' ?w))"
    by (rule reachable_login [OF reachable.mount]) (simp add: s p)
  have a: "isAuthenticated (snd (login (sampleEnv None) ''ada@example.com'' ''secret1'' ?w))"
    by (simp add: login_def login_try_def Let_def mounted_def sampleEnv_def sampleState_def
          ada_def agentProfile_def lookupDoc_def getProp_def collaborator_defs setters)
  from authenticated_role_known [OF d r] r a show ?thesis by simp
qed

text \<open>
  Without that proviso the states reached are not all sound: the run of the
  counterexample above is one of the reachable runs when the store may answer with any
  document.
\<close>

lemma roleless_run_reachable:
  "reachable (\<lambda>userData. True)
     (snd (bootstrap (sampleEnv None) (sampleState (Some ada) None (Some rolelessProfile))))"
  by (rule reachable_bootstrap) (simp add: profileIn_def split: option.splits)

section \<open>Timestamps of writes\<close>

subsection \<open>Auxiliary facts\<close>

lemma storedField_writeDoc: "storedField (writeDoc s path docId d) path docId k = getProp d k"
  by (simp add: storedField_def lookupDoc_writeDoc)

lemma resolved_sentinel:
  "getProp (resolveTimestamps t (data(k \<mapsto> ServerTimestampSentinel))) k = ServerTime t"
  by (simp add: getProp_def resolveTimestamps_def)

lemma merged_sentinel:
  "getProp (old ++ resolveTimestamps t (data(k \<mapsto> ServerTimestampSentinel))) k = ServerTime t"
  by (simp add: getProp_def resolveTimestamps_def map_add_def)

lemma addDocument_stamp:
  assumes "db sv = Some s" and "pathAccepted sv path" and "backendFailure sv = None"
  shows "fst (addDocument path data sv) = Inr (autoId sv (allocatedIds sv))
       \<and> (\<exists>s'. db (snd (addDocument path data sv)) = Some s'
              \<and> storedField s' path (autoId sv (allocatedIds sv)) ''createdAt''
                   = ServerTime (serverClock sv))"
  using assms
  by (simp add: addDocument_def collectionRef_def collection_def addDoc_def rethrow_def reach_def
        Let_def storedField_writeDoc resolved_sentinel)

lemma setDocument_stamp:
  assumes "db sv = Some s" and "pathAccepted sv path" and "backendFailure sv = None"
  shows "fst (setDocument path docId data sv) = Inr ()
       \<and> (\<exists>s'. db (snd (setDocument path docId data sv)) = Some s'
              \<and> storedField s' path docId ''updatedAt'' = ServerTime (serverClock sv))"
  using assms
  by (simp add: setDocument_def docRef_def setDocMerge_def rethrow_def reach_def
        Let_def storedField_writeDoc resolved_sentinel merged_sentinel split: option.splits)

lemma updateDocument_stamp:
  assumes "db sv = Some s" and "pathAccepted sv path" and "backendFailure sv = None"
    and "lookupDoc s path docId = Some old"
  shows "fst (updateDocument path docId data sv) = Inr ()
       \<and> (\<exists>s'. db (snd (updateDocument path docId data sv)) = Some s'
              \<and> storedField s' path docId ''updatedAt'' = ServerTime (serverClock sv))"
  using assms
  by (simp add: updateDocument_def docRef_def updateDoc_def rethrow_def reach_def
        Let_def storedField_writeDoc merged_sentinel)

lemma register_profile_stamp:
  assumes "signUp env mail password = Inr u" and "firestoreFailure env = None"
    and "case agentDetails of None \<Rightarrow> True | Some details \<Rightarrow> details ''createdAt'' = None"
  shows "fst (register env mail password role firstName lastName phoneNumber agentDetails w) = Inr ()
       \<and> storedField (firestoreDb (snd (register env mail password role firstName lastName
                                           phoneNumber agentDetails w)))
            (profilesPath env (uid u)) (uid u) ''createdAt'' = ClientDate (deviceClock w)"
  using assms
  by (simp add: register_def register_try_def createUserWithEmailAndPassword_def
        setDoc_profile_def setItemAsync_def Let_def setters storedField_writeDoc getProp_def
        map_add_def split: option.splits)

text \<open>
  Claim C5 does not hold as stated. Bob registers on a device whose clock reads 42 while
  the store is reachable: the \<open>createdAt\<close> of the profile document written by
  \<open>register\<close> is the \<open>new Date()\<close> of the device, not a timestamp assigned by the backend.
\<close>

theorem register_profile_has_client_timestamp:
  "\<not> serverAssigned
       (storedField
          (firestoreDb (snd (register (sampleEnv None) ''bob@example.com'' ''secret2'' ''renter''
                               ''Bob'' ''Ray'' ''08012345678'' None (sampleState None None None))))
          ''artifacts/rentopia/users/u2/profiles'' ''u2'' ''createdAt'')"
proof -
  have s: "signUp (sampleEnv None) ''bob@example.com'' ''secret2'' = Inr bob"
    by (simp add: sampleEnv_def)
  have f: "firestoreFailure (sampleEnv None) = None"
    by (simp add: sampleEnv_def)
  have p: "profilesPath (sampleEnv None) ''u2'' = ''artifacts/rentopia/users/u2/profiles''"
    by (simp add: profilesPath_def sampleEnv_def)
  have u: "uid bob = ''u2''"
    by (simp add: bob_def)
  have d: "deviceClock (sampleState None None None) = 42"
    by (simp add: sampleState_def)
  from register_profile_stamp [OF s f, where agentDetails = None and role = "''renter''"
         and firstName = "''Bob''" and lastName = "''Ray''" and phoneNumber = "''08012345678''"
         and w = "sampleState None None None"]
  show ?thesis by (simp add: p u d)
qed

text \<open>
  Claim C5, amended. Every create or update through the data access layer attaches a
  timestamp assigned by the backend, whatever the supplied data holds under that field and
  whatever the device clock reads: \<open>addDocument\<close> stores \<open>createdAt\<close>, \<open>setDocument\<close>
  and \<open>updateDocument\<close> store \<open>updatedAt\<close>, each read from the backend's clock (with
  the handle initialised, the path accepted, the backend reachable and, for the update,
  the document existing). The profile document written by \<open>register\<close> (after a
  successful sign-up, the store reachable, the agent details not naming \<open>createdAt\<close>)
  carries as \<open>createdAt\<close> the date read from the device clock.
\<close>

theorem write_timestamps:
  assumes "db sv = Some s" and "pathAccepted sv path" and "backendFailure sv = None"
    and "lookupDoc s path docId = Some old"
    and "signUp env mail password = Inr u" and "firestoreFailure env = None"
    and "case agentDetails of None \<Rightarrow> True | Some details \<Rightarrow> details ''createdAt'' = None"
  shows "(\<exists>s'. db (snd (addDocument path data sv)) = Some s'
            \<and> storedField s' path (autoId sv (allocatedIds sv)) ''createdAt''
                 = ServerTime (serverClock sv))
       \<and> (\<exists>s'. db (snd (setDocument path docId data sv)) = Some s'
            \<and> storedField s' path docId ''updatedAt'' = ServerTime (serverClock sv))
       \<and> (\<exists>s'. db (snd (updateDocument path docId data sv)) = Some s'
            \<and> storedField s' path docId ''updatedAt'' = ServerTime (serverClock sv))
       \<and> storedField (firestoreDb (snd (register env mail password role firstName lastName
                                           phoneNumber agentDetails w)))
            (profilesPath env (uid u)) (uid u) ''createdAt'' = ClientDate (deviceClock w)"
  using addDocument_stamp [OF assms(1-3), where data = data]
    setDocument_stamp [OF assms(1-3), where docId = docId and data = data]
    updateDocument_stamp [OF assms(1-4), where data = data]
    register_profile_stamp [OF assms(5-7), where role = role and firstName = firstName
      and lastName = lastName and phoneNumber = phoneNumber and w = w]
  by blast

theorem write_timestamps_witness:
  "db (sampleService (Some sampleStore)) = Some sampleStore
   \<and> pathAccepted (sampleService (Some sampleStore)) ''listings''
   \<and> backendFailure (sampleService (Some sampleStore)) = None
   \<and> lookupDoc sampleStore ''listings'' ''L1'' = Some listingL1
   \<and> signUp (sampleEnv None) ''bob@example.com'' ''secret2'' = Inr bob
   \<and> firestoreFailure (sampleEnv None) = None
   \<and> (\<exists>s'. db (snd (addDocument ''listings'' [''createdAt'' \<mapsto> ClientDate 7]
                        (sampleService (Some sampleStore)))) = Some s'
          \<and> storedField s' ''listings'' ''x'' ''createdAt'' = ServerTime 1700)
   \<and> (\<exists>s'. db (snd (updateDocument ''listings'' ''L1'' [''updatedAt'' \<mapsto> ClientDate 7]
                        (sampleService (Some sampleStore)))) = Some s'
          \<and> storedField s' ''listings'' ''L1'' ''updatedAt'' = ServerTime 1700)
   \<and> storedField
        (firestoreDb (snd (register (sampleEnv None) ''bob@example.com'' ''secret2'' ''renter''
                             ''Bob'' ''Ray'' ''08012345678'' None (sampleState None None None))))
        ''artifacts/rentopia/users/u2/profiles'' ''u2'' ''createdAt'' = ClientDate 42"
proof -
  let ?sv = "sampleService (Some sampleStore)"
  have h1: "db ?sv = Some sampleStore"
    by (simp add: sampleService_def)
  have h2: "pathAccepted ?sv ''listings''"
    by (simp add: sampleService_def)
  have h3: "backendFailure ?sv = None"
    by (simp add: sampleService_def)
  have h4: "lookupDoc sampleStore ''listings'' ''L1'' = Some listingL1"
    by (simp add: lookupDoc_def sampleStore_def)
  have h5: "signUp (sampleEnv None) ''bob@example.com'' ''secret2'' = Inr bob"
    by (simp add: sampleEnv_def)
  have h6: "firestoreFailure (sampleEnv None) = None"
    by (simp add: sampleEnv_def)
  have h7: "case None :: document option of None \<Rightarrow> True
            | Some details \<Rightarrow> details ''createdAt'' = None"
    by simp
  have clock: "serverClock ?sv = 1700" and newId: "autoId ?sv (allocatedIds ?sv) = ''x''"
    by (simp_all add: sampleService_def)
  have p: "profilesPath (sampleEnv None) ''u2'' = ''artifacts/rentopia/users/u2/profiles''"
    and u: "uid bob = ''u2''"
    and d: "deviceClock (sampleState None None None) = 42"
    by (simp_all add: profilesPath_def sampleEnv_def bob_def sampleState_def)
  note created = write_timestamps [OF h1 h2 h3 h4 h5 h6 h7,
            where data = "[''createdAt'' \<mapsto> ClientDate 7]" and role = "''renter''"
            and firstName = "''Bob''" and lastName = "''Ray''" and phoneNumber = "''08012345678''"
            and w = "sampleState None None None"]
  note updated = write_timestamps [OF h1 h2 h3 h4 h5 h6 h7,
            where data = "[''updatedAt'' \<mapsto> ClientDate 7]" and role = "''renter''"
            and firstName = "''Bob''" and lastName = "''Ray''" and phoneNumber = "''08012345678''"
            and w = "sampleState None None None"]
  have a: "\<exists>s'. db (snd (addDocument ''listings'' [''createdAt'' \<mapsto> ClientDate 7] ?sv)) = Some s'
          \<and> storedField s' ''listings'' ''x'' ''createdAt'' = ServerTime 1700"
    using created by (simp add: clock newId)
  have b: "\<exists>s'. db (snd (updateDocument ''listings'' ''L1'' [''updatedAt'' \<mapsto> ClientDate 7] ?sv)) = Some s'
          \<and> storedField s' ''listings'' ''L1'' ''updatedAt'' = ServerTime 1700"
    using updated by (simp add: clock newId)
  have c: "storedField
        (firestoreDb (snd (register (sampleEnv None) ''bob@example.com'' ''secret2'' ''renter''
                             ''Bob'' ''Ray'' ''08012345678'' None (sampleState None None None))))
        ''artifacts/rentopia/users/u2/profiles'' ''u2'' ''createdAt'' = ClientDate 42"
    using created by (simp add: p u d)
  from h1 h2 h3 h4 h5 h6 a b c show ?thesis by blast
qed
end
